theory Spec2Isabelle
  imports Main
begin

text \<open>
  A model of the asynchronous control-flow toolkit AsyncUtils (src/AsyncUtils.js and the
  earlier copy of its Thread class in src/unnamed/part_000): the cancellable polling Loop
  with its registry of unique loops, the List iterator built on it, the Thread around a web
  worker, and the conditional branch \<^verbatim>\<open>If\<close>.

  The host's event loop is explicit: a queue of pending timer callbacks, a queue of promise
  reactions that runs dry before the next timer fires, and a run of a given number of
  steps. A run never blocks: when nothing is pending a step does nothing, so a result
  stated for a number of steps and all larger ones is a result the program reaches and
  keeps. Numbers are unbounded integers, timer identifiers are handles that are always
  truthy, and an object is named by its index in the host. A function supplied by the user
  is a total function: one that throws is modelled only where the source catches the
  exception (the handle of a Thread).
\<close>

section \<open>Futures\<close>

text \<open>
  The promise primitive of the host: a container that is settled at most once.
  \<open>resolve\<close> and \<open>reject\<close> are the two functions handed to the executor of
  \<^verbatim>\<open>new Promise(function(resolve, reject) {...})\<close>; on a settled future both do nothing.
\<close>

datatype ('v, 'e) future = Pending | Fulfilled 'v | Rejected 'e

definition settled :: "('v, 'e) future \<Rightarrow> bool" where
  "settled p = (case p of Pending \<Rightarrow> False | _ \<Rightarrow> True)"

definition resolve :: "'v \<Rightarrow> ('v, 'e) future \<Rightarrow> ('v, 'e) future" where
  "resolve v p = (case p of Pending \<Rightarrow> Fulfilled v | _ \<Rightarrow> p)"

definition reject :: "'e \<Rightarrow> ('v, 'e) future \<Rightarrow> ('v, 'e) future" where
  "reject e p = (case p of Pending \<Rightarrow> Rejected e | _ \<Rightarrow> p)"

section \<open>The Loop engine (src/AsyncUtils.js, lines 67--206)\<close>

text \<open>
  A handle is called as \<^verbatim>\<open>this.handle.call(this)\<close>: it receives the Loop as
  \<^verbatim>\<open>this\<close>, so besides returning a value it may use the Loop: call its methods
  (\<^verbatim>\<open>this.done()\<close> in \<^verbatim>\<open>ListHandler.prototype.find\<close>; also \<^verbatim>\<open>terminate\<close>,
  \<^verbatim>\<open>cancel\<close>, \<^verbatim>\<open>kill\<close> and \<^verbatim>\<open>start\<close>) and write its fields \<^verbatim>\<open>maxIterations\<close>,
  \<^verbatim>\<open>job\<close> and \<^verbatim>\<open>handle\<close>. The promise and the functions kept in \<^verbatim>\<open>this.deferred\<close>
  are taken as left in place. One invocation is modelled by the list of the things it
  does with \<^verbatim>\<open>this\<close>, in order, the truthiness of the value it returns, and its effect
  on the variables its closure captures (the environment \<open>'u\<close>). A handle that leaves
  \<^verbatim>\<open>this\<close> alone has the empty list. An absent (\<^verbatim>\<open>undefined\<close>) string argument is
  \<open>None\<close>; a field written with a falsy value is \<open>None\<close>.
\<close>

datatype 'u this_call =
    CallDone
  | CallTerminate "string option" "string option"
  | CallCancel "string option"
  | CallKill "string option"
  | CallStart
  | SetMaxIterations "int option"
  | SetJob "nat option"
  | SetHandle "'u \<Rightarrow> ('u this_call list \<times> bool) \<times> 'u"

type_synonym 'u handle = "'u \<Rightarrow> ('u this_call list \<times> bool) \<times> 'u"

definition this_calls :: "'u handle \<Rightarrow> 'u \<Rightarrow> 'u this_call list" where
  "this_calls h u = fst (fst (h u))"

definition returns_truthy :: "'u handle \<Rightarrow> 'u \<Rightarrow> bool" where
  "returns_truthy h u = snd (fst (h u))"

definition env_after :: "'u handle \<Rightarrow> 'u \<Rightarrow> 'u" where
  "env_after h u = snd (h u)"

text \<open>
  The fields of a Loop instance. \<open>job\<close> is the identifier returned by
  \<^verbatim>\<open>setTimeout\<close> (truthy) or \<^verbatim>\<open>null\<close>; \<open>promise\<close> is the state of the promise
  made by the constructor, which \<^verbatim>\<open>this.deferred\<close> settles; \<open>reactions\<close> are the
  callbacks registered on it with \<^verbatim>\<open>.then\<close>. \<open>calls\<close> is not in the source: it counts
  the invocations of the handle.
\<close>

record 'u loop =
  maxIterations :: "int option"
  handle :: "'u handle"
  job :: "nat option"
  promise :: "(unit, string) future"
  reactions :: "('u \<Rightarrow> 'u) list"
  calls :: nat

text \<open>
  The host: the variables captured by user closures, the Loop instances (a Loop is named
  by its index), the pending \<^verbatim>\<open>setTimeout\<close> callbacks in firing order, the next timer
  identifier, the queued promise reactions, and the own properties of \<^verbatim>\<open>loopMap\<close>.
  Every pending callback is the function \<^verbatim>\<open>wait\<close> of a call of \<^verbatim>\<open>start\<close>, bound to
  a Loop; the variable \<^verbatim>\<open>iteration\<close> belongs to the closure of that call of
  \<^verbatim>\<open>start\<close>, so a pending callback is given by its timer identifier, its Loop and the
  value of its \<^verbatim>\<open>iteration\<close>.
\<close>

record 'u world =
  env :: 'u
  loops :: "'u loop list"
  timers :: "(nat \<times> nat \<times> int) list"
  next_timer :: nat
  microtasks :: "('u \<Rightarrow> 'u) list"
  loopMap :: "string \<Rightarrow> nat option"

definition init_world :: "'u \<Rightarrow> 'u world" where
  "init_world e = \<lparr>env = e, loops = [], timers = [], next_timer = 1, microtasks = [],
     loopMap = (\<lambda>ident. None)\<rparr>"

definition upd_loop :: "nat \<Rightarrow> ('u loop \<Rightarrow> 'u loop) \<Rightarrow> 'u world \<Rightarrow> 'u world" where
  "upd_loop lid f w = w\<lparr>loops := (loops w)[lid := f (loops w ! lid)]\<rparr>"

definition setTimeout :: "nat \<Rightarrow> int \<Rightarrow> 'u world \<Rightarrow> nat \<times> 'u world" where
  "setTimeout lid iteration w =
     (next_timer w,
      w\<lparr>timers := timers w @ [(next_timer w, lid, iteration)],
        next_timer := Suc (next_timer w)\<rparr>)"

definition clearTimeout :: "nat \<Rightarrow> 'u world \<Rightarrow> 'u world" where
  "clearTimeout t w = w\<lparr>timers := filter (\<lambda>e. fst e \<noteq> t) (timers w)\<rparr>"

text \<open>\<^verbatim>\<open>if(this.job) { clearTimeout(this.job); this.job = null; }\<close>\<close>

definition clear_job :: "nat \<Rightarrow> 'u world \<Rightarrow> 'u world" where
  "clear_job lid w =
     (case job (loops w ! lid) of
        None \<Rightarrow> w
      | Some t \<Rightarrow> upd_loop lid (\<lambda>l. l\<lparr>job := None\<rparr>) (clearTimeout t w))"

text \<open>
  \<^verbatim>\<open>this.deferred.resolve()\<close> and \<^verbatim>\<open>this.deferred.reject(reason)\<close>. Fulfilling a
  pending promise queues the callbacks registered with \<^verbatim>\<open>.then\<close>.
\<close>

definition deferred_resolve :: "nat \<Rightarrow> 'u world \<Rightarrow> 'u world" where
  "deferred_resolve lid w =
     (let l = loops w ! lid in
      case promise l of
        Pending \<Rightarrow>
          (upd_loop lid (\<lambda>l. l\<lparr>promise := resolve () (promise l)\<rparr>) w)
            \<lparr>microtasks := microtasks w @ reactions l\<rparr>
      | _ \<Rightarrow> w)"

definition deferred_reject :: "string \<Rightarrow> nat \<Rightarrow> 'u world \<Rightarrow> 'u world" where
  "deferred_reject r lid w = upd_loop lid (\<lambda>l. l\<lparr>promise := reject r (promise l)\<rparr>) w"

text \<open>\<^verbatim>\<open>x || d\<close> on an optional string: \<^verbatim>\<open>undefined\<close> and \<^verbatim>\<open>''\<close> are falsy.\<close>

definition or_default :: "string option \<Rightarrow> string \<Rightarrow> string" where
  "or_default x d = (case x of None \<Rightarrow> d | Some s \<Rightarrow> if s = [] then d else s)"

definition Loop_done :: "nat \<Rightarrow> 'u world \<Rightarrow> 'u world" where
  "Loop_done lid w = deferred_resolve lid (clear_job lid w)"

definition Loop_terminate :: "string option \<Rightarrow> string option \<Rightarrow> nat \<Rightarrow> 'u world \<Rightarrow> 'u world" where
  "Loop_terminate type message lid w =
     (let w1 = clear_job lid w;
          type' = or_default type ''Terminate'';
          message' = or_default message ''Unknown reason''
      in deferred_reject (''['' @ type' @ ''] '' @ message') lid w1)"

definition Loop_cancel :: "string option \<Rightarrow> nat \<Rightarrow> 'u world \<Rightarrow> 'u world" where
  "Loop_cancel message lid w = Loop_terminate (Some ''Cancel'') message lid w"

definition Loop_kill :: "string option \<Rightarrow> nat \<Rightarrow> 'u world \<Rightarrow> 'u world" where
  "Loop_kill message lid w = Loop_terminate (Some ''Kill'') message lid w"

text \<open>\<^verbatim>\<open>start\<close>: \<^verbatim>\<open>var iteration = 1; this.job = setTimeout(function wait() {...})\<close>.
  Every call makes a closure of its own, with its own \<^verbatim>\<open>iteration\<close>.\<close>

definition Loop_start :: "nat \<Rightarrow> 'u world \<Rightarrow> 'u world" where
  "Loop_start lid w =
     (let (t, w1) = setTimeout lid 1 w
      in upd_loop lid (\<lambda>l. l\<lparr>job := Some t\<rparr>) w1)"

text \<open>What a handle does with \<^verbatim>\<open>this\<close>: a method call or the write of a field.\<close>

fun apply_call :: "nat \<Rightarrow> 'u this_call \<Rightarrow> 'u world \<Rightarrow> 'u world" where
  "apply_call lid CallDone w = Loop_done lid w"
| "apply_call lid (CallTerminate type message) w = Loop_terminate type message lid w"
| "apply_call lid (CallCancel message) w = Loop_cancel message lid w"
| "apply_call lid (CallKill message) w = Loop_kill message lid w"
| "apply_call lid CallStart w = Loop_start lid w"
| "apply_call lid (SetMaxIterations m) w = upd_loop lid (\<lambda>l. l\<lparr>maxIterations := m\<rparr>) w"
| "apply_call lid (SetJob j) w = upd_loop lid (\<lambda>l. l\<lparr>job := j\<rparr>) w"
| "apply_call lid (SetHandle h) w = upd_loop lid (\<lambda>l. l\<lparr>handle := h\<rparr>) w"

text \<open>\<^verbatim>\<open>!!this.maxIterations && iteration === this.maxIterations\<close>\<close>

definition bound_reached :: "int \<Rightarrow> int option \<Rightarrow> bool" where
  "bound_reached iteration m = (case m of None \<Rightarrow> False | Some n \<Rightarrow> n \<noteq> 0 \<and> iteration = n)"

text \<open>
  The body of \<^verbatim>\<open>wait\<close>, the callback of a tick of Loop \<open>lid\<close>, run once its timer
  has fired, with the value of \<^verbatim>\<open>iteration\<close> in its closure:
  \<^verbatim>\<open>
    if(this.handle.call(this)) { this.done(); return; }
    if(!!this.maxIterations && iteration === this.maxIterations) {
        this.kill('maximum iterations reached.'); return;
    }
    iteration ++;
    this.job = setTimeout(wait.bind(this));
  \<close>
  The bound is read after the handle has returned.
\<close>

definition wait :: "nat \<Rightarrow> int \<Rightarrow> 'u world \<Rightarrow> 'u world" where
  "wait lid iteration w =
     (let h = handle (loops w ! lid);
          r = returns_truthy h (env w);
          w1 = fold (apply_call lid) (this_calls h (env w))
                 (upd_loop lid (\<lambda>l. l\<lparr>calls := Suc (calls l)\<rparr>)
                    (w\<lparr>env := env_after h (env w)\<rparr>))
      in if r then Loop_done lid w1
         else if bound_reached iteration (maxIterations (loops w1 ! lid))
           then Loop_kill (Some ''maximum iterations reached.'') lid w1
         else (let (t, w2) = setTimeout lid (iteration + 1) w1
               in upd_loop lid (\<lambda>l. l\<lparr>job := Some t\<rparr>) w2))"

text \<open>
  \<^verbatim>\<open>new Loop(handle, iterations)\<close>: \<^verbatim>\<open>this.maxIterations = iterations || null\<close>,
  so an absent bound and the bound 0 both give \<^verbatim>\<open>null\<close>.
\<close>

definition or_null :: "int option \<Rightarrow> int option" where
  "or_null iterations =
     (case iterations of None \<Rightarrow> None | Some n \<Rightarrow> if n = 0 then None else Some n)"

definition new_Loop :: "'u handle \<Rightarrow> int option \<Rightarrow> 'u loop" where
  "new_Loop h iterations =
     \<lparr>maxIterations = or_null iterations,
      handle = h, job = None, promise = Pending, reactions = [], calls = 0\<rparr>"

text \<open>\<^verbatim>\<open>Loop.until\<close>; the promise it returns is named by the new Loop's index.\<close>

definition Loop_until :: "'u handle \<Rightarrow> int option \<Rightarrow> 'u world \<Rightarrow> nat \<times> 'u world" where
  "Loop_until h iterations w =
     (let lid = length (loops w);
          w1 = w\<lparr>loops := loops w @ [new_Loop h iterations]\<rparr>
      in (lid, Loop_start lid w1))"

text \<open>
  The event loop. After a callback has run, the queued promise reactions run before
  the next timer fires; timers registered without a delay fire in the order of their
  registration.
\<close>

definition drain :: "'u world \<Rightarrow> 'u world" where
  "drain w = w\<lparr>env := fold (\<lambda>f e. f e) (microtasks w) (env w), microtasks := []\<rparr>"

definition step :: "'u world \<Rightarrow> 'u world" where
  "step w =
     (case timers w of
        [] \<Rightarrow> w
      | (t, lid, iteration) # ts \<Rightarrow> drain (wait lid iteration (w\<lparr>timers := ts\<rparr>)))"

fun run :: "nat \<Rightarrow> 'u world \<Rightarrow> 'u world" where
  "run 0 w = w"
| "run (Suc k) w = run k (step w)"

subsection \<open>The registry of unique loops (src/AsyncUtils.js, lines 176--203)\<close>

text \<open>
  \<^verbatim>\<open>var loopMap = {}\<close> is an object literal, and \<^verbatim>\<open>id in loopMap\<close> is true for
  its own properties and for the property names it inherits from
  \<^verbatim>\<open>Object.prototype\<close>. For an inherited name \<^verbatim>\<open>loopMap[id]\<close> is not a Loop and has
  no \<^verbatim>\<open>cancel\<close>: the call \<^verbatim>\<open>loopMap[id].cancel(...)\<close> throws a TypeError before a
  Loop is made.
\<close>

datatype js_exn = TypeError

definition Object_prototype_keys :: "string list" where
  "Object_prototype_keys =
     [''constructor'', ''hasOwnProperty'', ''isPrototypeOf'', ''propertyIsEnumerable'',
      ''toLocaleString'', ''toString'', ''valueOf'', ''__proto__'', ''__defineGetter__'',
      ''__defineSetter__'', ''__lookupGetter__'', ''__lookupSetter__'']"

definition js_in :: "string \<Rightarrow> (string \<Rightarrow> nat option) \<Rightarrow> bool" where
  "js_in ident m = (ident \<in> dom m \<or> ident \<in> set Object_prototype_keys)"

definition overriting :: "string \<Rightarrow> string" where
  "overriting ident = ''Overriting unique task '' @ [CHR 0x60] @ ident @ [CHR 0x60] @ '' with a newer one.''"

text \<open>
  \<^verbatim>\<open>Loop.unique(id).until(handle, iterations)\<close>:
  \<^verbatim>\<open>
    if(id in loopMap) { loopMap[id].cancel('Overriting unique task ...'); }
    var instance = new self(handle, iterations);
    instance.start();
    loopMap[id] = instance;
    return instance.promise;
  \<close>
\<close>

definition Loop_unique_until ::
  "string \<Rightarrow> 'u handle \<Rightarrow> int option \<Rightarrow> 'u world \<Rightarrow> js_exn + nat \<times> 'u world" where
  "Loop_unique_until ident h iterations w =
     (if js_in ident (loopMap w) \<and> loopMap w ident = None then Inl TypeError
      else
        (let w1 = (case loopMap w ident of
                     None \<Rightarrow> w
                   | Some old \<Rightarrow> Loop_cancel (Some (overriting ident)) old w);
             (lid, w2) = Loop_until h iterations w1
         in Inr (lid, w2\<lparr>loopMap := (loopMap w2)(ident := Some lid)\<rparr>)))"

subsection \<open>Observations and auxiliary notions\<close>

text \<open>What an observer of Loop \<open>lid\<close> sees: the state of its promise, and how often its
  handle has been invoked.\<close>

definition promise_of :: "nat \<Rightarrow> 'u world \<Rightarrow> (unit, string) future" where
  "promise_of lid w = promise (loops w ! lid)"

definition calls_of :: "nat \<Rightarrow> 'u world \<Rightarrow> nat" where
  "calls_of lid w = calls (loops w ! lid)"

text \<open>Whether a tick of Loop \<open>lid\<close> is pending.\<close>

definition scheduled :: "nat \<Rightarrow> 'u world \<Rightarrow> bool" where
  "scheduled lid w = (lid \<in> set (map (\<lambda>e. fst (snd e)) (timers w)))"

text \<open>The pending ticks of Loop \<open>lid\<close>, in firing order.\<close>

definition ticks_of :: "nat \<Rightarrow> 'u world \<Rightarrow> (nat \<times> nat \<times> int) list" where
  "ticks_of lid w = filter (\<lambda>e. fst (snd e) = lid) (timers w)"

text \<open>The environment in which a handle runs its \<open>(i+1)\<close>-th invocation, when only the
  handle changes the environment.\<close>

definition nth_env :: "'u handle \<Rightarrow> 'u \<Rightarrow> nat \<Rightarrow> 'u" where
  "nth_env h e i = (env_after h ^^ i) e"

text \<open>A host in which the newest Loop (after the Loops \<open>pre\<close>) is the only one with
  reactions and timers of interest; a Loop that has been started and has run \<open>j\<close> ticks;
  a Loop that has stopped after \<open>j\<close> ticks.\<close>

definition ticking ::
  "'u loop list \<Rightarrow> (string \<Rightarrow> nat option) \<Rightarrow> 'u \<Rightarrow> 'u loop \<Rightarrow> (nat \<times> nat \<times> int) list \<Rightarrow> nat
     \<Rightarrow> 'u world" where
  "ticking pre lm e l ts nt =
     \<lparr>env = e, loops = pre @ [l], timers = ts, next_timer = nt, microtasks = [], loopMap = lm\<rparr>"

definition running :: "int option \<Rightarrow> 'u handle \<Rightarrow> nat \<Rightarrow> nat \<Rightarrow> (unit, string) future \<Rightarrow> 'u loop" where
  "running m h t j P =
     \<lparr>maxIterations = m, handle = h, job = Some t, promise = P, reactions = [], calls = j\<rparr>"

definition stopped :: "int option \<Rightarrow> 'u handle \<Rightarrow> nat \<Rightarrow> (unit, string) future \<Rightarrow> 'u loop" where
  "stopped m h j P =
     \<lparr>maxIterations = m, handle = h, job = None, promise = P, reactions = [], calls = j\<rparr>"

text \<open>Handles for the examples: one that only polls and never reports completion, one
  that reports completion on its third invocation, one that calls \<^verbatim>\<open>this.done()\<close> and
  returns nothing, and one that calls \<^verbatim>\<open>this.cancel('stop')\<close> and returns
  \<^verbatim>\<open>true\<close>. Each counts its invocations in the environment.\<close>

definition polling_handle :: "nat handle" where
  "polling_handle u = (([], False), Suc u)"

definition third_time_handle :: "nat handle" where
  "third_time_handle u = (([], u = 2), Suc u)"

definition settling_handle :: "nat handle" where
  "settling_handle u = (([CallDone], False), Suc u)"


text \<open>A handle that calls \<^verbatim>\<open>this.start()\<close> on its first invocation and never returns a
  truthy value.\<close>

definition starting_handle :: "nat handle" where
  "starting_handle u = ((if u = 0 then [CallStart] else [], False), Suc u)"


text \<open>For the examples: a host in which another Loop is polling.\<close>

definition busy_world :: "nat world" where
  "busy_world = snd (Loop_until polling_handle None (init_world 0))"

text \<open>For the examples: the host after the first tick of
  \<^verbatim>\<open>Loop.until(function() { this.done(); })\<close>, and two calls of
  \<^verbatim>\<open>Loop.unique(id).until\<close> in a row.\<close>

definition settled_ticking_world :: "nat world" where
  "settled_ticking_world = run 1 (snd (Loop_until settling_handle None (init_world 0)))"

definition unique_twice ::
  "string \<Rightarrow> 'u handle \<Rightarrow> int option \<Rightarrow> 'u handle \<Rightarrow> int option \<Rightarrow> 'u world
     \<Rightarrow> js_exn + nat \<times> nat \<times> 'u world" where
  "unique_twice ident h1 it1 h2 it2 w =
     (case Loop_unique_until ident h1 it1 w of
        Inl ex \<Rightarrow> Inl ex
      | Inr (l1, w1) \<Rightarrow>
          (case Loop_unique_until ident h2 it2 w1 of
             Inl ex \<Rightarrow> Inl ex
           | Inr (l2, w2) \<Rightarrow> Inr (l1, l2, w2)))"

section \<open>The List iterator (src/AsyncUtils.js, lines 358--471)\<close>

text \<open>
  \<^verbatim>\<open>promise.then(callback)\<close> on the promise of a Loop: the callback is kept while the promise
  is pending, queued at once when it is already fulfilled, and dropped when it is rejected.
\<close>

definition promise_then :: "nat \<Rightarrow> ('u \<Rightarrow> 'u) \<Rightarrow> 'u world \<Rightarrow> 'u world" where
  "promise_then lid callback w =
     (case promise (loops w ! lid) of
        Pending \<Rightarrow> upd_loop lid (\<lambda>l. l\<lparr>reactions := reactions l @ [callback]\<rparr>) w
      | Fulfilled v \<Rightarrow> w\<lparr>microtasks := microtasks w @ [callback]\<rparr>
      | Rejected r \<Rightarrow> w)"

text \<open>\<^verbatim>\<open>_this.list[index]\<close>: reading past the end of an array gives \<^verbatim>\<open>undefined\<close>
  (\<open>None\<close>).\<close>

definition list_get :: "'a list \<Rightarrow> nat \<Rightarrow> 'a option" where
  "list_get xs i = (if i < length xs then Some (xs ! i) else None)"

text \<open>
  The handle given to \<^verbatim>\<open>each\<close> is called as \<^verbatim>\<open>handle.call(this, item, index)\<close> with the
  Loop as \<^verbatim>\<open>this\<close>: it may call the Loop's methods and change the variables of its closure
  (\<open>'u\<close>); its return value is not used. The environment of the Loop's own handle is the
  variable \<^verbatim>\<open>index\<close> of \<^verbatim>\<open>each\<close> together with that of the user's handle:
  \<^verbatim>\<open>
    var index = 0;
    return Loop.until(function() {
        handle.call(this, _this.list[index], index);
        index ++;
        return index > _this.list.length - 1;
    });
  \<close>
\<close>

type_synonym ('a, 'u) item_handle =
  "'a option \<Rightarrow> nat \<Rightarrow> 'u \<Rightarrow> (nat \<times> 'u) this_call list \<times> 'u"

definition each_handle :: "'a list \<Rightarrow> ('a, 'u) item_handle \<Rightarrow> (nat \<times> 'u) handle" where
  "each_handle list h =
     (\<lambda>(index, u).
        let (cs, u') = h (list_get list index) index u;
            index' = index + 1
        in ((cs, int index' > int (length list) - 1), (index', u')))"

definition ListHandler_each ::
  "'a list \<Rightarrow> ('a, 'u) item_handle \<Rightarrow> (nat \<times> 'u) world \<Rightarrow> nat \<times> (nat \<times> 'u) world" where
  "ListHandler_each list h w =
     Loop_until (each_handle list h) None (w\<lparr>env := (0, snd (env w))\<rparr>)"

text \<open>
  \<^verbatim>\<open>find(condition)\<close>. Its closure holds the flag \<^verbatim>\<open>resolved\<close> and the promise it
  returns (\<open>found\<close>, rejected with \<^verbatim>\<open>null\<close>); \<open>seen\<close> is not in the source: it records
  the arguments of every call of \<^verbatim>\<open>condition\<close>, whose result is read for its truthiness.
  \<^verbatim>\<open>
    var resolved = false;
    var promise = new Promise(function(resolve, reject) {
        this.each(function(item, index) {
            if(condition(item, index)) {
                resolved = true;
                resolve({item: item, index: index});
                this.done();
            }
        }).then(function() {
            if(!resolved) { reject(null); }
        });
    }.bind(this));
  \<close>
\<close>

datatype js_null = Null

record 'a find_env =
  resolved :: bool
  found :: "('a option \<times> nat, js_null) future"
  seen :: "('a option \<times> nat) list"

definition find_handle :: "('a option \<Rightarrow> nat \<Rightarrow> bool) \<Rightarrow> ('a, 'a find_env) item_handle" where
  "find_handle condition item index u =
     (let u1 = u\<lparr>seen := seen u @ [(item, index)]\<rparr>
      in if condition item index
         then ([CallDone], u1\<lparr>resolved := True, found := resolve (item, index) (found u1)\<rparr>)
         else ([], u1))"

definition find_then :: "nat \<times> 'a find_env \<Rightarrow> nat \<times> 'a find_env" where
  "find_then e =
     (if \<not> resolved (snd e) then (fst e, (snd e)\<lparr>found := reject Null (found (snd e))\<rparr>)
      else e)"

definition ListHandler_find ::
  "'a list \<Rightarrow> ('a option \<Rightarrow> nat \<Rightarrow> bool) \<Rightarrow> (nat \<times> 'a find_env) world
     \<Rightarrow> nat \<times> (nat \<times> 'a find_env) world" where
  "ListHandler_find list condition w =
     (let w0 = w\<lparr>env := (fst (env w), \<lparr>resolved = False, found = Pending, seen = []\<rparr>)\<rparr>;
          (lid, w1) = ListHandler_each list (find_handle condition) w0
      in (lid, promise_then lid find_then w1))"

text \<open>
  Auxiliary notions for \<^verbatim>\<open>find\<close>: the first index below \<open>j\<close> whose element satisfies the
  condition; the promise of \<^verbatim>\<open>find\<close> and the recorded calls after the first \<open>j\<close> elements;
  the host after \<open>j\<close> ticks, when more are to come, and after the last tick.
\<close>

definition first_match :: "('a option \<Rightarrow> nat \<Rightarrow> bool) \<Rightarrow> 'a list \<Rightarrow> nat \<Rightarrow> nat option" where
  "first_match c xs j = List.find (\<lambda>i. c (Some (xs ! i)) i) [0..<j]"

definition found_after ::
  "('a option \<Rightarrow> nat \<Rightarrow> bool) \<Rightarrow> 'a list \<Rightarrow> nat \<Rightarrow> ('a option \<times> nat, js_null) future" where
  "found_after c xs j =
     (case first_match c xs j of None \<Rightarrow> Pending | Some i \<Rightarrow> Fulfilled (Some (xs ! i), i))"

definition seen_after :: "'a list \<Rightarrow> nat \<Rightarrow> ('a option \<times> nat) list" where
  "seen_after xs j = map (\<lambda>i. (Some (xs ! i), i)) [0..<j]"

definition finding ::
  "('a option \<Rightarrow> nat \<Rightarrow> bool) \<Rightarrow> 'a list \<Rightarrow> nat \<Rightarrow> nat \<Rightarrow> (nat \<times> 'a find_env) world" where
  "finding c xs t j =
     \<lparr>env = (j, \<lparr>resolved = (first_match c xs j \<noteq> None), found = found_after c xs j,
                  seen = seen_after xs j\<rparr>),
      loops = [\<lparr>maxIterations = None, handle = each_handle xs (find_handle c),
                job = Some (t + j),
                promise = (if first_match c xs j = None then Pending else Fulfilled ()),
                reactions = [find_then], calls = j\<rparr>],
      timers = [(t + j, 0, 1 + int j)], next_timer = Suc (t + j), microtasks = [],
      loopMap = (\<lambda>ident. None)\<rparr>"

definition find_finished ::
  "('a option \<Rightarrow> nat \<Rightarrow> bool) \<Rightarrow> 'a list \<Rightarrow> nat \<Rightarrow> (nat \<times> 'a find_env) world" where
  "find_finished c xs t =
     \<lparr>env = (length xs,
              \<lparr>resolved = (first_match c xs (length xs) \<noteq> None),
               found = (case first_match c xs (length xs) of
                          None \<Rightarrow> Rejected Null
                        | Some i \<Rightarrow> Fulfilled (Some (xs ! i), i)),
               seen = seen_after xs (length xs)\<rparr>),
      loops = [\<lparr>maxIterations = None, handle = each_handle xs (find_handle c),
                job = None, promise = Fulfilled (),
                reactions = [find_then], calls = length xs\<rparr>],
      timers = [], next_timer = t + length xs, microtasks = [],
      loopMap = (\<lambda>ident. None)\<rparr>"

text \<open>A host in which Loop \<open>lid\<close> exists, nobody waits on its promise with \<^verbatim>\<open>.then\<close>
  and no reaction is queued.\<close>

definition quiet :: "nat \<Rightarrow> 'u world \<Rightarrow> bool" where
  "quiet lid w = (lid < length (loops w) \<and> reactions (loops w ! lid) = [] \<and> microtasks w = [])"

text \<open>For the examples: a handle that records the arguments of its calls, and the
  condition \<^verbatim>\<open>x === 1\<close>.\<close>

definition logging_handle :: "('a, ('a option \<times> nat) list) item_handle" where
  "logging_handle item index log = ([], log @ [(item, index)])"

definition is_one :: "int option \<Rightarrow> nat \<Rightarrow> bool" where
  "is_one item index = (item = Some 1)"

section \<open>The Thread (src/AsyncUtils.js, lines 213--320, and src/unnamed/part_000)\<close>

text \<open>
  The repository holds the class twice: in src/AsyncUtils.js and, in an earlier form, in
  src/unnamed/part_000. The two differ in the worker's \<^verbatim>\<open>Template\<close> and in \<^verbatim>\<open>exec\<close>;
  the definitions of the second carry the suffix \<open>_part\<close>.

  The values a handle receives and returns are of any type \<open>'v\<close>. A thrown exception
  \<^verbatim>\<open>ex\<close> is an object with the fields \<^verbatim>\<open>message\<close> and \<^verbatim>\<open>stack\<close>. The \<^verbatim>\<open>data\<close> of a
  message is an argument list, \<^verbatim>\<open>undefined\<close>, a return value, the object
  \<^verbatim>\<open>{message: ..., stack: ...}\<close>, or a thrown exception itself.
\<close>

record js_error =
  message :: string
  stack :: string

datatype 'v msg_data =
    Params "'v list"
  | NoData
  | Result 'v
  | ErrorInfo string string
  | Thrown js_error

record 'v msg =
  msg_type :: string
  msg_data :: "'v msg_data"

type_synonym 'v thread_fn = "'v list \<Rightarrow> js_error + 'v"

text \<open>\<^verbatim>\<open>f.apply(self, msg.data)\<close>: an absent argument list calls \<open>f\<close> with no argument.\<close>

definition apply_args :: "'v msg_data \<Rightarrow> 'v list" where
  "apply_args d = (case d of Params xs \<Rightarrow> xs | _ \<Rightarrow> [])"

text \<open>
  \<^verbatim>\<open>Template\<close>, the \<^verbatim>\<open>self.onmessage\<close> of the worker, with the handle in the place of
  \<^verbatim>\<open>THREAD_HANDLE\<close>; the result is the list of messages it posts back.
  \<^verbatim>\<open>
    if(msg.type === 'exec') {
        try {
            var result = (THREAD_HANDLE).apply(self, msg.data);
            self.postMessage({type: 'result', data: result});
        } catch(ex) {
            self.postMessage({type: 'error', data: {message: ex.message, stack: ex.stack}});
        }
    }
  \<close>
  In src/unnamed/part_000 the catch clause posts \<^verbatim>\<open>{type: 'error', data: ex}\<close>.
\<close>

definition Template :: "'v thread_fn \<Rightarrow> 'v msg \<Rightarrow> 'v msg list" where
  "Template THREAD_HANDLE m =
     (if msg_type m = ''exec'' then
        (case THREAD_HANDLE (apply_args (msg_data m)) of
           Inr result \<Rightarrow> [\<lparr>msg_type = ''result'', msg_data = Result result\<rparr>]
         | Inl ex \<Rightarrow> [\<lparr>msg_type = ''error'', msg_data = ErrorInfo (message ex) (stack ex)\<rparr>])
      else [])"

definition Template_part :: "'v thread_fn \<Rightarrow> 'v msg \<Rightarrow> 'v msg list" where
  "Template_part THREAD_HANDLE m =
     (if msg_type m = ''exec'' then
        (case THREAD_HANDLE (apply_args (msg_data m)) of
           Inr result \<Rightarrow> [\<lparr>msg_type = ''result'', msg_data = Result result\<rparr>]
         | Inl ex \<Rightarrow> [\<lparr>msg_type = ''error'', msg_data = Thrown ex\<rparr>])
      else [])"

text \<open>
  A worker of the platform: whether it has been terminated, its \<^verbatim>\<open>self.onmessage\<close>, the
  messages posted to it and not yet handled, the messages it has posted back and that are
  not yet delivered, and whether \<^verbatim>\<open>worker.onmessage\<close> has been set on the main side.
\<close>

record 'v worker =
  alive :: bool
  script :: "'v msg \<Rightarrow> 'v msg list"
  inbox :: "'v msg list"
  outbox :: "'v msg list"
  listening :: bool

text \<open>What the Future of an \<^verbatim>\<open>exec\<close> is rejected with: the \<^verbatim>\<open>data\<close> of an error
  message, or a string.\<close>

datatype 'v reason = Data "'v msg_data" | Str string

text \<open>
  A Thread and the platform around it. \<open>thread_handle\<close> is \<^verbatim>\<open>this.handle\<close>, the text of
  the worker's script; \<open>url\<close>, \<open>worker\<close>, \<open>thread_promise\<close> and \<open>deferred\<close> are the fields of
  those names (\<^verbatim>\<open>null\<close> is \<open>None\<close>; a promise is named by its index in \<open>promises\<close>, a
  worker by its index in \<open>workers\<close>); \<open>object_urls\<close> are the object URLs that are created
  and not revoked.
\<close>

record 'v thread =
  thread_handle :: "'v msg \<Rightarrow> 'v msg list"
  url :: "nat option"
  worker :: "nat option"
  thread_promise :: "nat option"
  deferred :: "nat option"
  promises :: "('v msg_data, 'v reason) future list"
  workers :: "'v worker list"
  object_urls :: "nat list"
  next_url :: nat

text \<open>\<^verbatim>\<open>new Thread(handle)\<close>, for the two forms of \<^verbatim>\<open>Template\<close>.\<close>

definition new_Thread :: "'v thread_fn \<Rightarrow> 'v thread" where
  "new_Thread h =
     \<lparr>thread_handle = Template h, url = None, worker = None, thread_promise = None,
      deferred = None, promises = [], workers = [], object_urls = [], next_url = 0\<rparr>"

definition new_Thread_part :: "'v thread_fn \<Rightarrow> 'v thread" where
  "new_Thread_part h =
     \<lparr>thread_handle = Template_part h, url = None, worker = None, thread_promise = None,
      deferred = None, promises = [], workers = [], object_urls = [], next_url = 0\<rparr>"

definition upd_worker :: "nat \<Rightarrow> ('v worker \<Rightarrow> 'v worker) \<Rightarrow> 'v thread \<Rightarrow> 'v thread" where
  "upd_worker wk f s = s\<lparr>workers := (workers s)[wk := f (workers s ! wk)]\<rparr>"

definition upd_promise ::
  "nat \<Rightarrow> (('v msg_data, 'v reason) future \<Rightarrow> ('v msg_data, 'v reason) future)
     \<Rightarrow> 'v thread \<Rightarrow> 'v thread" where
  "upd_promise p f s = s\<lparr>promises := (promises s)[p := f (promises s ! p)]\<rparr>"

text \<open>\<^verbatim>\<open>worker.postMessage(m)\<close>; a terminated worker receives nothing.\<close>

definition postMessage :: "nat \<Rightarrow> 'v msg \<Rightarrow> 'v thread \<Rightarrow> 'v thread" where
  "postMessage wk m s =
     (if alive (workers s ! wk) then upd_worker wk (\<lambda>k. k\<lparr>inbox := inbox k @ [m]\<rparr>) s else s)"

text \<open>
  \<^verbatim>\<open>exec(params)\<close>. A method that throws leaves the fields as they are at the throw: the
  result is the exception, if any, and the state.
  \<^verbatim>\<open>
    params = params || [];
    this.promise = new Promise(function(resolve, reject) {
        this.deferred = {resolve: resolve, reject: reject};
    }.bind(this));
    this.worker.postMessage({type: 'exec', data: params});
    this.worker.onmessage = function(e) {...}.bind(this);
    return this.promise;
  \<close>
  In src/unnamed/part_000 the message is \<^verbatim>\<open>{type: 'exec', data: this.params}\<close>; no code of
  the repository gives a Thread a property \<^verbatim>\<open>params\<close>, so the data is \<^verbatim>\<open>undefined\<close>.
\<close>

definition new_exec_promise :: "'v thread \<Rightarrow> 'v thread" where
  "new_exec_promise s =
     s\<lparr>promises := promises s @ [Pending],
       thread_promise := Some (length (promises s)),
       deferred := Some (length (promises s))\<rparr>"

definition Thread_exec :: "'v list option \<Rightarrow> 'v thread \<Rightarrow> js_exn option \<times> 'v thread" where
  "Thread_exec params s =
     (let params' = (case params of None \<Rightarrow> [] | Some p \<Rightarrow> p);
          s1 = new_exec_promise s
      in case worker s1 of
           None \<Rightarrow> (Some TypeError, s1)
         | Some wk \<Rightarrow>
             (None, upd_worker wk (\<lambda>k. k\<lparr>listening := True\<rparr>)
                      (postMessage wk \<lparr>msg_type = ''exec'', msg_data = Params params'\<rparr> s1)))"

definition Thread_exec_part :: "'v list option \<Rightarrow> 'v thread \<Rightarrow> js_exn option \<times> 'v thread" where
  "Thread_exec_part params s =
     (let params' = (case params of None \<Rightarrow> [] | Some p \<Rightarrow> p);
          s1 = new_exec_promise s
      in case worker s1 of
           None \<Rightarrow> (Some TypeError, s1)
         | Some wk \<Rightarrow>
             (None, upd_worker wk (\<lambda>k. k\<lparr>listening := True\<rparr>)
                      (postMessage wk \<lparr>msg_type = ''exec'', msg_data = NoData\<rparr> s1)))"

text \<open>
  \<^verbatim>\<open>terminate()\<close>:
  \<^verbatim>\<open>
    this.worker.terminate();
    window.URL.revokeObjectURL(this.url);
    this.worker = null;
    this.url = null;
    this.deferred.reject('Terminated');
    return this;
  \<close>
  Calling a method of \<^verbatim>\<open>null\<close> throws a TypeError: in the first line when there is no
  worker, in the fifth when \<^verbatim>\<open>exec\<close> has never been called.
\<close>

definition revokeObjectURL :: "nat option \<Rightarrow> 'v thread \<Rightarrow> 'v thread" where
  "revokeObjectURL u s =
     (case u of None \<Rightarrow> s | Some x \<Rightarrow> s\<lparr>object_urls := removeAll x (object_urls s)\<rparr>)"

definition Thread_terminate :: "'v thread \<Rightarrow> js_exn option \<times> 'v thread" where
  "Thread_terminate s =
     (case worker s of
        None \<Rightarrow> (Some TypeError, s)
      | Some wk \<Rightarrow>
          (let s1 = upd_worker wk (\<lambda>k. k\<lparr>alive := False\<rparr>) s;
               s2 = revokeObjectURL (url s1) s1;
               s3 = s2\<lparr>worker := None, url := None\<rparr>
           in case deferred s3 of
                None \<Rightarrow> (Some TypeError, s3)
              | Some d \<Rightarrow> (None, upd_promise d (reject (Str ''Terminated'')) s3)))"

text \<open>
  \<^verbatim>\<open>start()\<close>:
  \<^verbatim>\<open>
    if(this.worker !== null) { this.terminate(); }
    this.url = window.URL.createObjectURL(new Blob([this.handle.toString()]));
    this.worker = new Worker(this.url);
    return this;
  \<close>
\<close>

definition spawn :: "'v thread \<Rightarrow> 'v thread" where
  "spawn s =
     s\<lparr>url := Some (next_url s),
       object_urls := object_urls s @ [next_url s],
       next_url := Suc (next_url s),
       worker := Some (length (workers s)),
       workers := workers s @
         [\<lparr>alive = True, script = thread_handle s, inbox = [], outbox = [], listening = False\<rparr>]\<rparr>"

definition Thread_start :: "'v thread \<Rightarrow> js_exn option \<times> 'v thread" where
  "Thread_start s =
     (if worker s \<noteq> None then
        (case Thread_terminate s of
           (Some ex, s1) \<Rightarrow> (Some ex, s1)
         | (None, s1) \<Rightarrow> (None, spawn s1))
      else (None, spawn s))"

text \<open>
  The two events of the exchange. The worker handles the first message of its inbox with
  its script. The main side receives the first message a worker has posted back; a
  terminated worker delivers nothing, and the message is handled by \<^verbatim>\<open>worker.onmessage\<close>
  once \<^verbatim>\<open>exec\<close> has set it:
  \<^verbatim>\<open>
    switch (msg.type) {
        case 'result': this.deferred.resolve(msg.data); break;
        case 'error':  this.deferred.reject(msg.data);  break;
    }
  \<close>
\<close>

definition worker_run :: "nat \<Rightarrow> 'v thread \<Rightarrow> 'v thread" where
  "worker_run wk s =
     (let k = workers s ! wk in
      case inbox k of
        [] \<Rightarrow> s
      | m # ms \<Rightarrow>
          if alive k then upd_worker wk (\<lambda>k. k\<lparr>inbox := ms, outbox := outbox k @ script k m\<rparr>) s
          else s)"

definition onmessage :: "'v msg \<Rightarrow> 'v thread \<Rightarrow> 'v thread" where
  "onmessage m s =
     (case deferred s of
        None \<Rightarrow> s
      | Some d \<Rightarrow>
          if msg_type m = ''result'' then upd_promise d (resolve (msg_data m)) s
          else if msg_type m = ''error'' then upd_promise d (reject (Data (msg_data m))) s
          else s)"

definition deliver :: "nat \<Rightarrow> 'v thread \<Rightarrow> 'v thread" where
  "deliver wk s =
     (let k = workers s ! wk in
      case outbox k of
        [] \<Rightarrow> s
      | m # ms \<Rightarrow>
          if alive k then
            (let s1 = upd_worker wk (\<lambda>k. k\<lparr>outbox := ms\<rparr>) s
             in if listening k then onmessage m s1 else s1)
          else s)"

text \<open>What an observer sees of the Future \<^verbatim>\<open>exec\<close> returned last.\<close>

definition exec_future :: "'v thread \<Rightarrow> ('v msg_data, 'v reason) future option" where
  "exec_future s = (case thread_promise s of None \<Rightarrow> None | Some p \<Rightarrow> Some (promises s ! p))"

text \<open>
  For the examples: the handle \<^verbatim>\<open>function(a, b) { return a + b; }\<close> on numbers, and a
  handle that throws. A parameter without argument is \<^verbatim>\<open>undefined\<close>, and the sum of
  \<^verbatim>\<open>undefined\<close> or \<^verbatim>\<open>NaN\<close> and anything that is not a string is \<^verbatim>\<open>NaN\<close>.
\<close>

datatype jsnum = Num int | NaN

definition js_add :: "jsnum option \<Rightarrow> jsnum option \<Rightarrow> jsnum" where
  "js_add a b = (case (a, b) of (Some (Num x), Some (Num y)) \<Rightarrow> Num (x + y) | _ \<Rightarrow> NaN)"

definition adding_fn :: "jsnum thread_fn" where
  "adding_fn xs = Inr (js_add (list_get xs 0) (list_get xs 1))"

definition throwing_fn :: "int thread_fn" where
  "throwing_fn xs = Inl \<lparr>message = ''boom'', stack = ''at handle''\<rparr>"

section \<open>The conditional branch (src/AsyncUtils.js, lines 478--564)\<close>

text \<open>
  The values a condition or a branch handle returns: data, an object without a
  \<^verbatim>\<open>then\<close> method (named by a number), a promise or a \<^verbatim>\<open>ForkPromiseProxy\<close> (each
  named by its index in the host below), and the TypeError with which the platform rejects
  a promise that is resolved with itself. A promise and a proxy are thenables: both have a
  method \<^verbatim>\<open>then\<close>.
\<close>

datatype jsval =
    JUndefined
  | JNull
  | JBool bool
  | JNum int
  | JStr string
  | JObject nat
  | JPromise nat
  | JProxy nat
  | JTypeError

text \<open>
  The fields of a \<^verbatim>\<open>ForkPromiseProxy\<close>: \<^verbatim>\<open>this.promise\<close>, the two handles, and
  \<^verbatim>\<open>this.next\<close>. A handle is called without arguments. It is a function of the user or,
  when the platform has called \<^verbatim>\<open>then\<close> on the proxy as on any thenable, the
  \<^verbatim>\<open>resolve\<close> function of a promise.
\<close>

datatype branch = UserHandle "unit \<Rightarrow> jsval" | ResolveOf nat

record proxy =
  proxy_promise :: nat
  thenHandle :: branch
  elseHandle :: branch
  proxy_next :: nat

text \<open>
  The callbacks a promise of this component can carry: the callback that the constructor
  of a proxy registers with \<^verbatim>\<open>this.promise.then(...)\<close>, whose result settles the promise
  \<^verbatim>\<open>this.next\<close>; and the adoption of a promise by another one that was resolved with it
  (\<^verbatim>\<open>resolve(p)\<close>, or a promise returned from a \<^verbatim>\<open>then\<close> callback).
\<close>

datatype reaction = ProxyCallback nat nat | Adopt nat

record prom =
  state :: "(jsval, jsval) future"
  reacts :: "reaction list"

text \<open>The callback of \<^verbatim>\<open>If\<close>'s timer:
  \<^verbatim>\<open>setTimeout(function() { resolve(condition()); })\<close>.\<close>

datatype timer_task = ResolveCondition nat "unit \<Rightarrow> jsval"

text \<open>
  The jobs of the platform's queue: a reaction with the state of the promise that fired it,
  and the call \<^verbatim>\<open>thenable.then(resolve, reject)\<close> that the platform makes after a promise
  has been resolved with a thenable that is not a promise of its own (here: with a proxy).
\<close>

datatype job = Reaction reaction "(jsval, jsval) future" | ThenableJob nat nat

text \<open>
  The host: promises, proxies, pending timers in firing order, and the queued jobs.
  \<open>invoked\<close> is not in the source: it records which branch handle of which proxy has been
  called.
\<close>

record ihost =
  proms :: "prom list"
  proxies :: "proxy list"
  itimers :: "timer_task list"
  jobs :: "job list"
  invoked :: "(nat \<times> string) list"

definition init_ihost :: ihost where
  "init_ihost = \<lparr>proms = [], proxies = [], itimers = [], jobs = [], invoked = []\<rparr>"

definition upd_prom :: "nat \<Rightarrow> (prom \<Rightarrow> prom) \<Rightarrow> ihost \<Rightarrow> ihost" where
  "upd_prom p f h = h\<lparr>proms := (proms h)[p := f (proms h ! p)]\<rparr>"

definition upd_proxy :: "nat \<Rightarrow> (proxy \<Rightarrow> proxy) \<Rightarrow> ihost \<Rightarrow> ihost" where
  "upd_proxy x f h = h\<lparr>proxies := (proxies h)[x := f (proxies h ! x)]\<rparr>"

text \<open>Settling a pending promise queues its reactions; a settled promise stays as it is.\<close>

definition settle :: "nat \<Rightarrow> (jsval, jsval) future \<Rightarrow> ihost \<Rightarrow> ihost" where
  "settle p st h =
     (case state (proms h ! p) of
        Pending \<Rightarrow>
          (upd_prom p (\<lambda>q. q\<lparr>state := st, reacts := []\<rparr>) h)
            \<lparr>jobs := jobs h @ map (\<lambda>r. Reaction r st) (reacts (proms h ! p))\<rparr>
      | _ \<Rightarrow> h)"

text \<open>Registering a reaction on a promise: kept while it is pending, queued at once when
  it is settled.\<close>

definition subscribe :: "nat \<Rightarrow> reaction \<Rightarrow> ihost \<Rightarrow> ihost" where
  "subscribe p r h =
     (case state (proms h ! p) of
        Pending \<Rightarrow> upd_prom p (\<lambda>q. q\<lparr>reacts := reacts q @ [r]\<rparr>) h
      | st \<Rightarrow> h\<lparr>jobs := jobs h @ [Reaction r st]\<rparr>)"

text \<open>
  The \<^verbatim>\<open>resolve\<close> function of promise \<open>p\<close>, also applied to the value a \<^verbatim>\<open>then\<close> callback
  returns. A promise is adopted (the promise itself is refused with a TypeError); for a
  proxy the call of its method \<^verbatim>\<open>then\<close> is queued; any other value fulfils. A value
  that names no promise or proxy of the host has no effect.
\<close>

definition resolve_with :: "nat \<Rightarrow> jsval \<Rightarrow> ihost \<Rightarrow> ihost" where
  "resolve_with p v h =
     (case v of
        JPromise q \<Rightarrow>
          if q = p then settle p (Rejected JTypeError) h
          else if q < length (proms h) then subscribe q (Adopt p) h
          else h
      | JProxy y \<Rightarrow>
          if y < length (proxies h) then h\<lparr>jobs := jobs h @ [ThenableJob y p]\<rparr> else h
      | _ \<Rightarrow> settle p (Fulfilled v) h)"

definition new_promise :: "ihost \<Rightarrow> nat \<times> ihost" where
  "new_promise h = (length (proms h), h\<lparr>proms := proms h @ [\<lparr>state = Pending, reacts = []\<rparr>]\<rparr>)"

text \<open>
  The constructor:
  \<^verbatim>\<open>
    this.promise = promise;
    this.thenHandle = function() {};
    this.elseHandle = function() {};
    this.next = this.promise.then(function(result) {...}.bind(this));
  \<close>
\<close>

definition new_ForkPromiseProxy :: "nat \<Rightarrow> ihost \<Rightarrow> nat \<times> ihost" where
  "new_ForkPromiseProxy p h =
     (let x = length (proxies h);
          (d, h1) = new_promise h;
          h2 = h1\<lparr>proxies := proxies h1 @
                 [\<lparr>proxy_promise = p, thenHandle = UserHandle (\<lambda>_. JUndefined),
                   elseHandle = UserHandle (\<lambda>_. JUndefined), proxy_next = d\<rparr>]\<rparr>
      in (x, subscribe p (ProxyCallback x d) h2))"

text \<open>
  The callback of the constructor, called with the value the promise is fulfilled with;
  \<^verbatim>\<open>this.resolve(type)\<close> is \<^verbatim>\<open>this[type + 'Handle']()\<close>. A \<^verbatim>\<open>resolve\<close> function
  called without argument resolves its promise with \<^verbatim>\<open>undefined\<close> and returns
  \<^verbatim>\<open>undefined\<close>.
  \<^verbatim>\<open>
    var returns = null;
    if(result === true) { returns = this.resolve('then'); }
    else if(result === false) { returns = this.resolve('else'); }
    if(returns instanceof ForkPromiseProxy) { returns = returns.promise; }
    return returns;
  \<close>
\<close>

definition call_branch :: "branch \<Rightarrow> ihost \<Rightarrow> jsval \<times> ihost" where
  "call_branch b h =
     (case b of
        UserHandle f \<Rightarrow> (f (), h)
      | ResolveOf p \<Rightarrow> (JUndefined, resolve_with p JUndefined h))"

definition proxy_resolve :: "nat \<Rightarrow> string \<Rightarrow> ihost \<Rightarrow> jsval \<times> ihost" where
  "proxy_resolve x type h =
     call_branch
       (if type = ''then'' then thenHandle (proxies h ! x) else elseHandle (proxies h ! x))
       (h\<lparr>invoked := invoked h @ [(x, type)]\<rparr>)"

definition proxy_callback :: "nat \<Rightarrow> jsval \<Rightarrow> ihost \<Rightarrow> jsval \<times> ihost" where
  "proxy_callback x result h =
     (let (returns, h1) =
            (if result = JBool True then proxy_resolve x ''then'' h
             else if result = JBool False then proxy_resolve x ''else'' h
             else (JNull, h));
          returns' = (case returns of
                        JProxy y \<Rightarrow> JPromise (proxy_promise (proxies h1 ! y))
                      | _ \<Rightarrow> returns)
      in (returns', h1))"

text \<open>\<^verbatim>\<open>then(handle)\<close> returns the proxy itself; \<^verbatim>\<open>else(handle)\<close> returns
  \<^verbatim>\<open>new ForkPromiseProxy(this.next)\<close>.\<close>

definition proxy_then :: "nat \<Rightarrow> branch \<Rightarrow> ihost \<Rightarrow> nat \<times> ihost" where
  "proxy_then x b h = (x, upd_proxy x (\<lambda>p. p\<lparr>thenHandle := b\<rparr>) h)"

definition proxy_else :: "nat \<Rightarrow> branch \<Rightarrow> ihost \<Rightarrow> nat \<times> ihost" where
  "proxy_else x b h =
     (let h1 = upd_proxy x (\<lambda>p. p\<lparr>elseHandle := b\<rparr>) h
      in new_ForkPromiseProxy (proxy_next (proxies h1 ! x)) h1)"

text \<open>
  \<^verbatim>\<open>If(condition)\<close>:
  \<^verbatim>\<open>
    new ForkPromiseProxy(new Promise(function(resolve, reject) {
        setTimeout(function() { resolve(condition()); });
    }))
  \<close>
\<close>

definition If_cond :: "(unit \<Rightarrow> jsval) \<Rightarrow> ihost \<Rightarrow> nat \<times> ihost" where
  "If_cond condition h =
     (let (p, h1) = new_promise h;
          h2 = h1\<lparr>itimers := itimers h1 @ [ResolveCondition p condition]\<rparr>
      in new_ForkPromiseProxy p h2)"

text \<open>The whole expression \<^verbatim>\<open>If(condition).then(a).else(b)\<close>: the first proxy, the proxy
  the expression returns, and the host.\<close>

definition If_then_else ::
  "(unit \<Rightarrow> jsval) \<Rightarrow> (unit \<Rightarrow> jsval) \<Rightarrow> (unit \<Rightarrow> jsval) \<Rightarrow> ihost \<Rightarrow> nat \<times> nat \<times> ihost" where
  "If_then_else condition a b h =
     (let (x, h1) = If_cond condition h;
          (x', h2) = proxy_then x (UserHandle a) h1;
          (y, h3) = proxy_else x' (UserHandle b) h2
      in (x, y, h3))"

text \<open>
  The event loop: a queued job runs before the next timer fires. A reaction fired by
  a rejected promise rejects the promise derived by \<^verbatim>\<open>then\<close> with the same reason. The
  call of \<^verbatim>\<open>then\<close> on a proxy hands it the \<^verbatim>\<open>resolve\<close> function of the promise as its
  then-handle.
\<close>

definition run_reaction :: "reaction \<Rightarrow> (jsval, jsval) future \<Rightarrow> ihost \<Rightarrow> ihost" where
  "run_reaction r st h =
     (case r of
        Adopt d \<Rightarrow> settle d st h
      | ProxyCallback x d \<Rightarrow>
          (case st of
             Fulfilled result \<Rightarrow> (let (returns, h1) = proxy_callback x result h
                                  in resolve_with d returns h1)
           | Rejected e \<Rightarrow> settle d (Rejected e) h
           | Pending \<Rightarrow> h))"

definition run_job :: "job \<Rightarrow> ihost \<Rightarrow> ihost" where
  "run_job j h =
     (case j of
        Reaction r st \<Rightarrow> run_reaction r st h
      | ThenableJob y p \<Rightarrow> snd (proxy_then y (ResolveOf p) h))"

definition run_timer :: "timer_task \<Rightarrow> ihost \<Rightarrow> ihost" where
  "run_timer t h = (case t of ResolveCondition p condition \<Rightarrow> resolve_with p (condition ()) h)"

definition istep :: "ihost \<Rightarrow> ihost" where
  "istep h =
     (case jobs h of
        j # js \<Rightarrow> run_job j (h\<lparr>jobs := js\<rparr>)
      | [] \<Rightarrow>
          (case itimers h of
             [] \<Rightarrow> h
           | t # ts \<Rightarrow> run_timer t (h\<lparr>itimers := ts\<rparr>)))"

fun irun :: "nat \<Rightarrow> ihost \<Rightarrow> ihost" where
  "irun 0 h = h"
| "irun (Suc k) h = irun k (istep h)"

text \<open>Observations: the state of a promise, and whether anything is left to run.\<close>

definition state_of :: "nat \<Rightarrow> ihost \<Rightarrow> (jsval, jsval) future" where
  "state_of p h = state (proms h ! p)"

definition quiescent :: "ihost \<Rightarrow> bool" where
  "quiescent h = (jobs h = [] \<and> itimers h = [])"


definition returns_false :: "unit \<Rightarrow> jsval" where
  "returns_false u = JBool False"

definition returns_A :: "unit \<Rightarrow> jsval" where
  "returns_A u = JStr ''A''"

definition returns_B :: "unit \<Rightarrow> jsval" where
  "returns_B u = JStr ''B''"

definition host_with_true_promise :: ihost where
  "host_with_true_promise =
     init_ihost\<lparr>proms := [\<lparr>state = Fulfilled (JBool True), reacts = []\<rparr>]\<rparr>"

definition returns_true_promise :: "unit \<Rightarrow> jsval" where
  "returns_true_promise u = JPromise 0"

text \<open>A host in which \<^verbatim>\<open>var q = If(() => false)\<close> has been evaluated, and a condition that
  returns \<open>q\<close>.\<close>

definition host_with_proxy :: ihost where
  "host_with_proxy = snd (If_cond returns_false init_ihost)"

definition returns_proxy :: "unit \<Rightarrow> jsval" where
  "returns_proxy u = JProxy 0"

text \<open>The parts of the result of \<open>If_then_else\<close>.\<close>

definition first_proxy :: "nat \<times> nat \<times> ihost \<Rightarrow> nat" where
  "first_proxy r = fst r"

definition returned_proxy :: "nat \<times> nat \<times> ihost \<Rightarrow> nat" where
  "returned_proxy r = fst (snd r)"

definition host_of :: "nat \<times> nat \<times> ihost \<Rightarrow> ihost" where
  "host_of r = snd (snd r)"

text \<open>The promise \<^verbatim>\<open>this.next\<close> of a proxy, and the promise it wraps.\<close>

definition next_of :: "nat \<Rightarrow> ihost \<Rightarrow> nat" where
  "next_of x h = proxy_next (proxies h ! x)"

definition wrapped_by :: "nat \<Rightarrow> ihost \<Rightarrow> nat" where
  "wrapped_by x h = proxy_promise (proxies h ! x)"

definition returns_one :: "unit \<Rightarrow> jsval" where
  "returns_one u = JNum 1"

section \<open>Properties of the Loop engine\<close>

lemmas loop_defs = Loop_done_def Loop_terminate_def Loop_cancel_def Loop_kill_def clear_job_def
  clearTimeout_def deferred_resolve_def deferred_reject_def upd_loop_def

lemma ticking_sel [simp]:
  "env (ticking pre lm e l ts nt) = e" "loops (ticking pre lm e l ts nt) = pre @ [l]"
  "timers (ticking pre lm e l ts nt) = ts" "next_timer (ticking pre lm e l ts nt) = nt"
  "microtasks (ticking pre lm e l ts nt) = []" "loopMap (ticking pre lm e l ts nt) = lm"
  by (simp_all add: ticking_def)

lemma ticking_upd [simp]:
  "(ticking pre lm e l ts nt)\<lparr>timers := ts'\<rparr> = ticking pre lm e l ts' nt"
  "(ticking pre lm e l ts nt)\<lparr>env := e'\<rparr> = ticking pre lm e' l ts nt"
  "(ticking pre lm e l ts nt)\<lparr>loopMap := lm'\<rparr> = ticking pre lm' e l ts nt"
  "upd_loop (length pre) f (ticking pre lm e l ts nt) = ticking pre lm e (f l) ts nt"
  "setTimeout (length pre) i (ticking pre lm e l ts nt)
     = (nt, ticking pre lm e l (ts @ [(nt, length pre, i)]) (Suc nt))"
  "drain (ticking pre lm e l ts nt) = ticking pre lm e l ts nt"
  by (simp_all add: ticking_def upd_loop_def setTimeout_def drain_def)

lemma running_sel [simp]:
  "maxIterations (running m h t j P) = m" "handle (running m h t j P) = h"
  "job (running m h t j P) = Some t" "promise (running m h t j P) = P"
  "reactions (running m h t j P) = []" "calls (running m h t j P) = j"
  by (simp_all add: running_def)

lemma stopped_sel [simp]:
  "maxIterations (stopped m h j P) = m" "handle (stopped m h j P) = h"
  "job (stopped m h j P) = None" "promise (stopped m h j P) = P"
  "reactions (stopped m h j P) = []" "calls (stopped m h j P) = j"
  by (simp_all add: stopped_def)

lemma obs_ticking [simp]:
  "promise_of (length pre) (ticking pre lm e l ts nt) = promise l"
  "calls_of (length pre) (ticking pre lm e l ts nt) = calls l"
  by (simp_all add: promise_of_def calls_of_def)




lemma Loop_until_quiescent:
  assumes "timers w = []" and "microtasks w = []"
  shows "Loop_until h iterations w
     = (length (loops w),
        ticking (loops w) (loopMap w) (env w) (running (or_null iterations) h (next_timer w) 0 Pending)
          [(next_timer w, length (loops w), 1)] (Suc (next_timer w)))"
  using assms
  by (cases w)
     (simp add: Loop_until_def Loop_start_def setTimeout_def upd_loop_def
       new_Loop_def ticking_def running_def Let_def)

lemma run_step: "run k (step w) = step (run k w)"
  by (induction k arbitrary: w) simp_all

lemma run_idle: "timers w = [] \<Longrightarrow> run k w = w"
  by (induction k) (simp_all add: step_def)

lemma run_add: "run (j + k) w = run k (run j w)"
  by (induction j arbitrary: w) simp_all

lemma run_settled:
  assumes "run n w = w'" and "timers w' = []" and "n \<le> k"
  shows "run k w = w'"
proof -
  from assms(3) obtain d where "k = n + d" by (auto simp: le_iff_add)
  then show ?thesis using assms(1,2) by (simp add: run_add run_idle)
qed

lemma nth_env_Suc [simp]: "nth_env h e (Suc i) = env_after h (nth_env h e i)"
  by (simp add: nth_env_def)

lemma nth_env_0 [simp]: "nth_env h e 0 = e"
  by (simp add: nth_env_def)




subsection \<open>What a tick or a method call of one Loop leaves alone\<close>

lemma frame_apply_call:
  assumes "l' \<noteq> lid"
  shows "loops (apply_call l' c w) ! lid = loops w ! lid
       \<and> (scheduled lid (apply_call l' c w) \<longrightarrow> scheduled lid w)"
  using assms
  by (cases c)
     (auto simp: loop_defs Loop_start_def setTimeout_def scheduled_def Let_def
        split: option.splits future.splits)

lemma frame_fold_calls:
  assumes "l' \<noteq> lid"
  shows "loops (fold (apply_call l') cs w) ! lid = loops w ! lid
       \<and> (scheduled lid (fold (apply_call l') cs w) \<longrightarrow> scheduled lid w)"
proof (induction cs arbitrary: w)
  case Nil
  show ?case by simp
next
  case (Cons c cs)
  from Cons.IH[of "apply_call l' c w"] frame_apply_call[OF assms, of c w]
  show ?case by auto
qed

lemma frame_wait:
  assumes "l' \<noteq> lid"
  shows "loops (wait l' i w) ! lid = loops w ! lid
       \<and> (scheduled lid (wait l' i w) \<longrightarrow> scheduled lid w)"
proof -
  define h where "h = handle (loops w ! l')"
  define w0 where "w0 = upd_loop l' (\<lambda>l. l\<lparr>calls := Suc (calls l)\<rparr>) (w\<lparr>env := env_after h (env w)\<rparr>)"
  define w1 where "w1 = fold (apply_call l') (this_calls h (env w)) w0"
  have 0: "loops w0 ! lid = loops w ! lid" "scheduled lid w0 = scheduled lid w"
    using assms by (simp_all add: w0_def upd_loop_def scheduled_def)
  have 1: "loops w1 ! lid = loops w ! lid" "scheduled lid w1 \<longrightarrow> scheduled lid w"
    using frame_fold_calls[OF assms, of "this_calls h (env w)" w0] 0
    by (simp_all add: w1_def)
  have d: "loops (Loop_done l' w1) ! lid = loops w1 ! lid"
     "scheduled lid (Loop_done l' w1) \<longrightarrow> scheduled lid w1"
    using frame_apply_call[OF assms, of CallDone w1] by simp_all
  have k: "loops (Loop_kill m l' w1) ! lid = loops w1 ! lid"
     "scheduled lid (Loop_kill m l' w1) \<longrightarrow> scheduled lid w1" for m
    using frame_apply_call[OF assms, of "CallKill m" w1] by simp_all
  have s: "loops (upd_loop l' (\<lambda>l. l\<lparr>job := Some (next_timer w1)\<rparr>)
                    (snd (setTimeout l' (i + 1) w1))) ! lid = loops w1 ! lid"
     "scheduled lid (upd_loop l' (\<lambda>l. l\<lparr>job := Some (next_timer w1)\<rparr>)
                    (snd (setTimeout l' (i + 1) w1))) \<longrightarrow> scheduled lid w1"
    using assms by (auto simp: setTimeout_def upd_loop_def scheduled_def)
  have w: "wait l' i w = (if returns_truthy h (env w) then Loop_done l' w1
         else if bound_reached i (maxIterations (loops w1 ! l'))
           then Loop_kill (Some ''maximum iterations reached.'') l' w1
         else upd_loop l' (\<lambda>l. l\<lparr>job := Some (next_timer w1)\<rparr>) (snd (setTimeout l' (i + 1) w1)))"
    by (simp add: wait_def Let_def w1_def w0_def h_def setTimeout_def)
  show ?thesis
    unfolding w using d k s 1 by auto
qed

lemma frame_step:
  assumes "\<not> scheduled lid w"
  shows "loops (step w) ! lid = loops w ! lid \<and> \<not> scheduled lid (step w)"
proof (cases "timers w")
  case Nil
  then show ?thesis using assms by (simp add: step_def)
next
  case (Cons a ts)
  obtain t l' i where a: "a = (t, l', i)" by (cases a)
  have ne: "l' \<noteq> lid" and ts: "\<not> scheduled lid (w\<lparr>timers := ts\<rparr>)"
    using assms Cons a by (auto simp: scheduled_def)
  from frame_wait[OF ne, of i "w\<lparr>timers := ts\<rparr>"] ts
  show ?thesis
    by (auto simp: step_def Cons a drain_def scheduled_def)
qed

text \<open>A Loop with no pending tick is never touched again by the event loop.\<close>

lemma frame_run:
  assumes "\<not> scheduled lid w"
  shows "loops (run k w) ! lid = loops w ! lid \<and> \<not> scheduled lid (run k w)"
  using assms
proof (induction k arbitrary: w)
  case 0
  then show ?case by simp
next
  case (Suc k)
  from frame_step[OF Suc.prems] Suc.IH[of "step w"] show ?case by simp
qed

subsection \<open>A Loop whose handle leaves it alone, in any host\<close>













lemma loops_drain [simp]: "loops (drain w) = loops w" "ticks_of lid (drain w) = ticks_of lid w"
  by (simp_all add: drain_def ticks_of_def)






subsection \<open>A Loop whose handle leaves it alone, in a host where nothing else is pending\<close>



subsection \<open>The outcome of a Loop whose handle leaves it alone\<close>


lemma polling_handle_simps [simp]:
  "returns_truthy polling_handle u = False" "this_calls polling_handle u = []"
  "env_after polling_handle u = Suc u"
  by (simp_all add: returns_truthy_def this_calls_def env_after_def polling_handle_def)


text \<open>The same Loop started in a host where another Loop is polling: its second
  invocation is made at the fourth step.\<close>

lemma Loop_until_in_busy_world:
  "timers busy_world \<noteq> []
   \<and> calls_of 1 (run 3 (snd (Loop_until polling_handle (Some 2) busy_world))) = 1
   \<and> promise_of 1 (run 3 (snd (Loop_until polling_handle (Some 2) busy_world))) = Pending
   \<and> calls_of 1 (run 4 (snd (Loop_until polling_handle (Some 2) busy_world))) = 2
   \<and> promise_of 1 (run 4 (snd (Loop_until polling_handle (Some 2) busy_world)))
       = Rejected ''[Kill] maximum iterations reached.''
   \<and> calls_of 1 (run 20 (snd (Loop_until polling_handle (Some 2) busy_world))) = 2"
  by code_simp


text \<open>
  Nor does the claim hold of a handle that uses \<^verbatim>\<open>this\<close> otherwise: the handle that calls
  \<^verbatim>\<open>this.start()\<close> on its first invocation starts a second chain of ticks with an
  \<^verbatim>\<open>iteration\<close> of its own, and with \<open>n = 2\<close> it is invoked three times before the
  promise is rejected.
\<close>

lemma Loop_until_starting_handle:
  "calls_of 0 (run 3 (snd (Loop_until starting_handle (Some 2) (init_world 0)))) = 3
   \<and> promise_of 0 (run 2 (snd (Loop_until starting_handle (Some 2) (init_world 0)))) = Pending
   \<and> promise_of 0 (run 3 (snd (Loop_until starting_handle (Some 2) (init_world 0))))
       = Rejected ''[Kill] maximum iterations reached.''
   \<and> timers (run 3 (snd (Loop_until starting_handle (Some 2) (init_world 0)))) = []"
  by code_simp


lemma third_time_handle_simps [simp]:
  "returns_truthy third_time_handle u = (u = 2)" "this_calls third_time_handle u = []"
  "env_after third_time_handle u = Suc u"
  by (simp_all add: returns_truthy_def this_calls_def env_after_def third_time_handle_def)

lemma nth_env_third_time [simp]: "nth_env third_time_handle e i = e + i"
  by (induction i) simp_all



subsection \<open>Termination methods on a settled Loop\<close>

lemma upd_loop_same:
  assumes "f (loops x ! lid) = loops x ! lid"
  shows "upd_loop lid f x = x"
  by (simp add: upd_loop_def assms)

text \<open>
  On a settled Loop each of the four termination methods does what clearing the job does
  and nothing else: the promise keeps its first outcome, no reaction is queued, the
  environment and the count of invocations are as they were; and when the job is
  \<^verbatim>\<open>null\<close> already, the host is left as it is.
\<close>

lemma termination_on_settled_Loop:
  assumes "lid < length (loops w)" and "settled (promise_of lid w)"
  shows "Loop_done lid w = clear_job lid w"
    and "Loop_terminate ty msg lid w = clear_job lid w"
    and "Loop_cancel msg lid w = clear_job lid w"
    and "Loop_kill msg lid w = clear_job lid w"
proof -
  have p: "promise (loops (clear_job lid w) ! lid) = promise (loops w ! lid)"
    using assms(1) by (simp add: clear_job_def upd_loop_def clearTimeout_def split: option.splits)
  have s: "promise (loops (clear_job lid w) ! lid) \<noteq> Pending"
    using assms(2) by (auto simp: p promise_of_def settled_def)
  have r: "deferred_resolve lid (clear_job lid w) = clear_job lid w"
    using s by (simp add: deferred_resolve_def Let_def split: future.splits)
  have j: "deferred_reject x lid (clear_job lid w) = clear_job lid w" for x
  proof -
    have "reject x (promise (loops (clear_job lid w) ! lid)) = promise (loops (clear_job lid w) ! lid)"
      using s by (simp add: reject_def split: future.splits)
    then show ?thesis
      by (simp add: deferred_reject_def upd_loop_same)
  qed
  show "Loop_done lid w = clear_job lid w" by (simp add: Loop_done_def r)
  have t: "Loop_terminate a b lid w = clear_job lid w" for a b
    by (simp add: Loop_terminate_def j)
  show "Loop_terminate ty msg lid w = clear_job lid w" by (rule t)
  show "Loop_cancel msg lid w = clear_job lid w" by (simp add: Loop_cancel_def t)
  show "Loop_kill msg lid w = clear_job lid w" by (simp add: Loop_kill_def t)
qed

lemma clear_job_facts:
  assumes "lid < length (loops w)"
  shows "promise_of lid (clear_job lid w) = promise_of lid w"
    and "calls_of lid (clear_job lid w) = calls_of lid w"
    and "env (clear_job lid w) = env w"
    and "microtasks (clear_job lid w) = microtasks w"
    and "job (loops w ! lid) = None \<Longrightarrow> clear_job lid w = w"
  using assms
  by (auto simp: clear_job_def upd_loop_def clearTimeout_def promise_of_def calls_of_def
        split: option.splits)

text \<open>
  Claim C9 fails on the code for a Loop that its own handle has settled. After the first
  tick of \<^verbatim>\<open>Loop.until(function() { this.done(); })\<close> the Future is fulfilled, but the
  handle has returned a falsy value and the tick has scheduled the next one. Every later
  tick calls \<^verbatim>\<open>this.done()\<close> on the settled Loop and is followed by a further tick: after
  five more steps the handle has been invoked six times and a tick is pending. And a
  \<^verbatim>\<open>cancel()\<close> on the settled Loop between two ticks has an effect that can be observed: it
  clears the pending tick, and the handle is not invoked again.
\<close>

theorem settled_Loop_keeps_ticking:
  "promise_of 0 settled_ticking_world = Fulfilled ()
   \<and> calls_of 0 settled_ticking_world = 1
   \<and> scheduled 0 settled_ticking_world
   \<and> promise_of 0 (run 5 settled_ticking_world) = Fulfilled ()
   \<and> calls_of 0 (run 5 settled_ticking_world) = 6
   \<and> scheduled 0 (run 5 settled_ticking_world)
   \<and> promise_of 0 (run 5 (Loop_cancel None 0 settled_ticking_world)) = Fulfilled ()
   \<and> calls_of 0 (run 5 (Loop_cancel None 0 settled_ticking_world)) = 1
   \<and> timers (run 5 (Loop_cancel None 0 settled_ticking_world)) = []"
  by code_simp

subsection \<open>The registry of unique loops\<close>

text \<open>
  Claim C3 fails on the code for the identifiers that an object literal inherits from
  \<^verbatim>\<open>Object.prototype\<close>: for \<^verbatim>\<open>"toString"\<close> the test \<^verbatim>\<open>id in loopMap\<close> holds in the
  empty registry, \<^verbatim>\<open>loopMap[id]\<close> is a function without \<^verbatim>\<open>cancel\<close>, and the first call of
  \<^verbatim>\<open>Loop.unique("toString").until(handle)\<close> throws a TypeError: no Loop is made.
\<close>

theorem Loop_unique_inherited_key_throws:
  "Loop_unique_until ''toString'' polling_handle None (init_world 0) = Inl TypeError"
  by (simp add: Loop_unique_until_def js_in_def Object_prototype_keys_def init_world_def)

text \<open>For every other identifier the claim holds; the first call, in a host with no pending
  callbacks and no Loop registered under the identifier:\<close>

lemma Loop_unique_until_fresh:
  assumes q: "timers w = []" "microtasks w = []"
    and f: "loopMap w ident = None" and k: "ident \<notin> set Object_prototype_keys"
  shows "Loop_unique_until ident h iterations w
     = Inr (length (loops w),
            ticking (loops w) ((loopMap w)(ident := Some (length (loops w)))) (env w)
              (running (or_null iterations) h (next_timer w) 0 Pending)
              [(next_timer w, length (loops w), 1)] (Suc (next_timer w)))"
  using f k
  by (auto simp: Loop_unique_until_def js_in_def Loop_until_quiescent[OF q] dom_def)

lemma Loop_cancel_ticking:
  "Loop_cancel msg (length pre) (ticking pre lm e (running m h t 0 Pending) [(t, length pre, i)] nt)
     = ticking pre lm e
         ((running m h t 0 Pending)\<lparr>job := None,
            promise := Rejected (''[Cancel] '' @ or_default msg ''Unknown reason'')\<rparr>) [] nt"
  by (simp add: Loop_cancel_def Loop_terminate_def clear_job_def clearTimeout_def deferred_reject_def
      reject_def or_default_def)

lemma overriting_nonempty [simp]: "or_default (Some (overriting ident)) d = overriting ident"
  by (simp add: or_default_def overriting_def)

text \<open>Two calls in a row: the host they leave.\<close>

lemma unique_twice_supersedes:
  assumes q: "timers w = []" "microtasks w = []"
    and f: "loopMap w ident = None" and k: "ident \<notin> set Object_prototype_keys"
  shows "unique_twice ident h1 it1 h2 it2 w
     = Inr (length (loops w), Suc (length (loops w)),
            ticking (loops w @ [(running (or_null it1) h1 (next_timer w) 0 Pending)\<lparr>job := None,
                       promise := Rejected (''[Cancel] '' @ overriting ident)\<rparr>])
              ((loopMap w)(ident := Some (Suc (length (loops w))))) (env w)
              (running (or_null it2) h2 (Suc (next_timer w)) 0 Pending)
              [(Suc (next_timer w), Suc (length (loops w)), 1)] (Suc (Suc (next_timer w))))"
proof -
  define w1 where "w1 = ticking (loops w) ((loopMap w)(ident := Some (length (loops w)))) (env w)
              (running (or_null it1) h1 (next_timer w) 0 Pending)
              [(next_timer w, length (loops w), 1)] (Suc (next_timer w))"
  define c where "c = Loop_cancel (Some (overriting ident)) (length (loops w)) w1"
  have c': "c = ticking (loops w) ((loopMap w)(ident := Some (length (loops w)))) (env w)
         ((running (or_null it1) h1 (next_timer w) 0 Pending)\<lparr>job := None,
            promise := Rejected (''[Cancel] '' @ overriting ident)\<rparr>) [] (Suc (next_timer w))"
    unfolding c_def w1_def by (simp add: Loop_cancel_ticking)
  have qc: "timers c = []" "microtasks c = []" by (simp_all add: c')
  have 2: "Loop_unique_until ident h2 it2 w1
     = Inr (Suc (length (loops w)),
            ticking (loops w @ [(running (or_null it1) h1 (next_timer w) 0 Pending)\<lparr>job := None,
                       promise := Rejected (''[Cancel] '' @ overriting ident)\<rparr>])
              ((loopMap w)(ident := Some (Suc (length (loops w))))) (env w)
              (running (or_null it2) h2 (Suc (next_timer w)) 0 Pending)
              [(Suc (next_timer w), Suc (length (loops w)), 1)] (Suc (Suc (next_timer w))))"
    apply (simp add: Loop_unique_until_def js_in_def w1_def[symmetric])
    apply (simp add: w1_def c_def[unfolded w1_def, symmetric])
    apply (simp add: Loop_until_quiescent[OF qc])
    apply (simp add: c')
    done
  show ?thesis
    by (simp add: unique_twice_def Loop_unique_until_fresh[OF q f k] w1_def[symmetric] 2)
qed

text \<open>
  What the two calls give, for an identifier that is not inherited: the first Loop's
  promise is rejected with the Cancel reason and stays so, its handle is never invoked, the
  registry maps the identifier to the second Loop only, and the second Loop is pending with
  its first tick scheduled: it is the Loop that \<^verbatim>\<open>Loop.until(h2, it2)\<close> starts in a host
  without pending callbacks, so what is proved of \<^verbatim>\<open>Loop.until\<close> holds of it.
\<close>

lemma unique_twice_outcome:
  assumes q: "timers w = []" "microtasks w = []"
    and f: "loopMap w ident = None" and k: "ident \<notin> set Object_prototype_keys"
    and u: "unique_twice ident h1 it1 h2 it2 w = Inr (l1, l2, w2)"
  shows "l1 \<noteq> l2" and "loopMap w2 ident = Some l2"
    and "\<forall>n. promise_of l1 (run n w2) = Rejected (''[Cancel] '' @ overriting ident)
            \<and> calls_of l1 (run n w2) = 0"
    and "promise_of l2 w2 = Pending" and "scheduled l2 w2"
    and "\<exists>wm. timers wm = [] \<and> microtasks wm = [] \<and> env wm = env w
            \<and> Loop_until h2 it2 wm = (l2, w2)"
proof -
  define x where "x = (running (or_null it1) h1 (next_timer w) 0 Pending)\<lparr>job := None,
                       promise := Rejected (''[Cancel] '' @ overriting ident)\<rparr>"
  define lm where "lm = (loopMap w)(ident := Some (Suc (length (loops w))))"
  define pre where "pre = loops w @ [x]"
  have len: "length pre = Suc (length (loops w))" by (simp add: pre_def)
  have "Inr (l1, l2, w2) = (Inr (length (loops w), Suc (length (loops w)),
            ticking (loops w @ [x]) ((loopMap w)(ident := Some (Suc (length (loops w))))) (env w)
              (running (or_null it2) h2 (Suc (next_timer w)) 0 Pending)
              [(Suc (next_timer w), Suc (length (loops w)), 1)] (Suc (Suc (next_timer w))))
          :: js_exn + nat \<times> nat \<times> 'a world)"
    unfolding x_def by (rule trans[OF u[symmetric] unique_twice_supersedes[OF q f k]])
  then have l1: "l1 = length (loops w)" and l2': "l2 = Suc (length (loops w))"
    and w2': "w2 = ticking (loops w @ [x]) ((loopMap w)(ident := Some (Suc (length (loops w))))) (env w)
              (running (or_null it2) h2 (Suc (next_timer w)) 0 Pending)
              [(Suc (next_timer w), Suc (length (loops w)), 1)] (Suc (Suc (next_timer w)))"
    by (simp_all only: sum.inject prod.inject)
  have l2: "l2 = length pre" by (simp add: l2' len)
  have w2: "w2 = ticking pre lm (env w) (running (or_null it2) h2 (Suc (next_timer w)) 0 Pending)
              [(Suc (next_timer w), length pre, 1)] (Suc (Suc (next_timer w)))"
    by (simp add: w2' pre_def lm_def)
  show "l1 \<noteq> l2" by (simp add: l1 l2 len)
  show "loopMap w2 ident = Some l2" by (simp add: w2 l2 lm_def len)
  show "promise_of l2 w2 = Pending" by (simp add: w2 l2)
  show "scheduled l2 w2" by (simp add: w2 l2 scheduled_def)
  have x1: "loops w2 ! l1 = x" by (simp add: w2 l1 pre_def nth_append)
  have ns: "\<not> scheduled l1 w2" by (simp add: w2 l1 scheduled_def len)
  show "\<forall>n. promise_of l1 (run n w2) = Rejected (''[Cancel] '' @ overriting ident)
            \<and> calls_of l1 (run n w2) = 0"
    using frame_run[OF ns] x1 by (simp add: promise_of_def calls_of_def x_def)
  define wm where "wm = \<lparr>env = env w, loops = pre, timers = [], next_timer = Suc (next_timer w),
      microtasks = [], loopMap = lm\<rparr>"
  have qm: "timers wm = []" "microtasks wm = []" by (simp_all add: wm_def)
  have "Loop_until h2 it2 wm = (l2, w2)"
    by (simp add: Loop_until_quiescent[OF qm]) (simp add: wm_def w2 l2)
  then show "\<exists>wm. timers wm = [] \<and> microtasks wm = [] \<and> env wm = env w
            \<and> Loop_until h2 it2 wm = (l2, w2)"
    using qm by (intro exI[of _ wm]) (simp add: wm_def)
qed

section \<open>Properties of the List iterator\<close>

text \<open>
  Claim C4 fails on the code: the Loop's handle calls the user's handle before it compares
  the index with the length, so on the empty sequence the handle is invoked once, with
  \<^verbatim>\<open>undefined\<close> as the item and 0 as the index, in the tick that fulfils the Future.
\<close>

theorem each_empty_invokes_handle_once:
  "env (run 1 (snd (ListHandler_each ([]::int list) logging_handle (init_world (0, [])))))
     = (1, [(None, 0)])
   \<and> promise_of 0 (run 1 (snd (ListHandler_each ([]::int list) logging_handle (init_world (0, [])))))
     = Fulfilled ()
   \<and> calls_of 0 (run 1 (snd (ListHandler_each ([]::int list) logging_handle (init_world (0, [])))))
     = 1
   \<and> timers (run 1 (snd (ListHandler_each ([]::int list) logging_handle (init_world (0, [])))))
     = []"
  by code_simp

text \<open>A Loop on which nobody waits with \<^verbatim>\<open>.then\<close>: whatever its handle does with
  \<^verbatim>\<open>this\<close>, no reaction is queued and the environment is left alone.\<close>

lemma quiet_apply_call:
  assumes "quiet lid w"
  shows "quiet lid (apply_call lid c w)" and "env (apply_call lid c w) = env w"
  using assms
  by (cases c;
      auto simp: quiet_def loop_defs Loop_start_def setTimeout_def Let_def
        split: option.splits future.splits)+

lemma quiet_fold_calls:
  assumes "quiet lid w"
  shows "quiet lid (fold (apply_call lid) cs w)" and "env (fold (apply_call lid) cs w) = env w"
  using assms
proof (induction cs arbitrary: w)
  case Nil
  { case 1 then show ?case by simp }
  { case 2 then show ?case by simp }
next
  case (Cons c cs)
  { case 1 then show ?case using Cons(1)[OF quiet_apply_call(1)] by simp }
  { case 2 then show ?case
      using Cons(2)[OF quiet_apply_call(1)] quiet_apply_call(2) by simp }
qed

text \<open>The same for every handle: after the only tick the index is 1 and the variables of the
  handle are as the handle leaves them when called with \<^verbatim>\<open>undefined\<close> and 0.\<close>

lemma each_empty_any_handle:
  "env (run 1 (snd (ListHandler_each [] h (init_world (i, u))))) = (1, snd (h None 0 u))"
proof -
  let ?w = "snd (ListHandler_each [] h (init_world (i, u)))"
  have w: "?w = \<lparr>env = (0, u), loops = [new_Loop (each_handle [] h) None\<lparr>job := Some 1\<rparr>],
      timers = [(1, 0, 1)], next_timer = 2, microtasks = [], loopMap = (\<lambda>ident. None)\<rparr>"
    by (simp add: ListHandler_each_def Loop_until_def Loop_start_def setTimeout_def upd_loop_def
        init_world_def Let_def)
  define w0 where "w0 = upd_loop 0 (\<lambda>l. l\<lparr>calls := Suc (calls l)\<rparr>)
       (?w\<lparr>timers := [], env := env_after (each_handle [] h) (0, u)\<rparr>)"
  define w1 where "w1 = fold (apply_call 0) (this_calls (each_handle [] h) (0, u)) w0"
  have q0: "quiet 0 w0" by (simp add: w0_def w quiet_def upd_loop_def new_Loop_def)
  have e0: "env w0 = env_after (each_handle [] h) (0, u)" by (simp add: w0_def w upd_loop_def)
  have q1: "quiet 0 w1" and e1: "env w1 = env w0"
    using quiet_fold_calls[OF q0] by (simp_all add: w1_def)
  have t: "returns_truthy (each_handle [] h) (0, u)"
    by (simp add: returns_truthy_def each_handle_def Let_def split: prod.splits)
  have s: "step ?w = drain (Loop_done 0 w1)"
    using t by (simp add: step_def wait_def w Let_def w1_def w0_def new_Loop_def)
  have "quiet 0 (Loop_done 0 w1)" "env (Loop_done 0 w1) = env w1"
    using quiet_apply_call[OF q1, of CallDone] by simp_all
  then have "env (step ?w) = env w1"
    unfolding s by (simp add: drain_def quiet_def)
  moreover have "env_after (each_handle [] h) (0, u) = (1, snd (h None 0 u))"
    by (simp add: env_after_def each_handle_def list_get_def Let_def split: prod.splits)
  ultimately show ?thesis by (simp add: e1 e0)
qed

text \<open>
  Claim C5 fails on the code: \<^verbatim>\<open>this.done()\<close> is called inside the handle, whose own timer
  has fired already, and the Loop's handle then returns a falsy value unless the match is
  the last element; the tick schedules the next one. For the sequence 1, 2 and the condition
  \<^verbatim>\<open>x === 1\<close> the Future of \<^verbatim>\<open>find\<close> is fulfilled with item 1 at index 0 after the first
  tick, a tick is still pending, and the second tick calls the condition on item 2.
\<close>

theorem find_keeps_iterating_after_match:
  "found (snd (env (run 1 (snd (ListHandler_find [1, 2] is_one
       (init_world (0, \<lparr>resolved = False, found = Pending, seen = []\<rparr>)))))))
     = Fulfilled (Some 1, 0)
   \<and> promise_of 0 (run 1 (snd (ListHandler_find [1, 2] is_one
       (init_world (0, \<lparr>resolved = False, found = Pending, seen = []\<rparr>)))))
     = Fulfilled ()
   \<and> scheduled 0 (run 1 (snd (ListHandler_find [1, 2] is_one
       (init_world (0, \<lparr>resolved = False, found = Pending, seen = []\<rparr>)))))
   \<and> seen (snd (env (run 2 (snd (ListHandler_find [1, 2] is_one
       (init_world (0, \<lparr>resolved = False, found = Pending, seen = []\<rparr>)))))))
     = [(Some 1, 0), (Some 2, 1)]
   \<and> calls_of 0 (run 2 (snd (ListHandler_find [1, 2] is_one
       (init_world (0, \<lparr>resolved = False, found = Pending, seen = []\<rparr>)))))
     = 2"
  by code_simp

text \<open>
  What holds of \<^verbatim>\<open>find\<close> on a sequence that is not empty: every tick but the last
  schedules the next one, whether the condition has matched or not; after as many ticks as
  the sequence has elements nothing is pending, the condition has been called on every
  element in order, and the Future is fulfilled with the first element that satisfies the
  condition and its index, or rejected with \<^verbatim>\<open>null\<close> when there is none.
\<close>

lemma find_snoc:
  "List.find P (xs @ [y]) = (case List.find P xs of None \<Rightarrow> if P y then Some y else None
                             | Some x \<Rightarrow> Some x)"
  by (induction xs) simp_all

lemma first_match_Suc:
  "first_match c xs (Suc j) =
     (case first_match c xs j of
        Some i \<Rightarrow> Some i
      | None \<Rightarrow> if c (Some (xs ! j)) j then Some j else None)"
  by (simp add: first_match_def find_snoc split: option.splits)

lemma seen_after_Suc: "seen_after xs (Suc j) = seen_after xs j @ [(Some (xs ! j), j)]"
  by (simp add: seen_after_def)

lemmas find_defs = step_def wait_def drain_def Loop_done_def Loop_kill_def Loop_terminate_def
  clear_job_def clearTimeout_def deferred_resolve_def deferred_reject_def upd_loop_def
  setTimeout_def returns_truthy_def this_calls_def env_after_def each_handle_def find_handle_def
  find_then_def list_get_def resolve_def reject_def bound_reached_def Let_def

lemma find_step:
  assumes "Suc j < length xs"
  shows "step (finding c xs t j) = finding c xs t (Suc j)"
  using assms
  by (cases "first_match c xs j"; cases "c (Some (xs ! j)) j")
     (simp_all add: finding_def find_defs first_match_Suc seen_after_Suc found_after_def)

lemma find_last_step:
  assumes "Suc j = length xs"
  shows "step (finding c xs t j) = find_finished c xs t"
  using assms[symmetric]
  by (cases "first_match c xs j"; cases "c (Some (xs ! j)) j")
     (simp_all add: finding_def find_finished_def find_defs first_match_Suc seen_after_Suc
        found_after_def)


lemma find_run:
  assumes "j < length xs"
  shows "run j (finding c xs t 0) = finding c xs t j"
  using assms
proof (induction j)
  case 0
  show ?case by simp
next
  case (Suc j)
  have "run (Suc j) (finding c xs t 0) = step (run j (finding c xs t 0))"
    by (simp add: run_step)
  also have "\<dots> = step (finding c xs t j)" using Suc by simp
  also have "\<dots> = finding c xs t (Suc j)" using Suc.prems by (rule find_step)
  finally show ?case .
qed

lemma find_run_all:
  assumes "xs \<noteq> []" and "length xs \<le> k"
  shows "run k (finding c xs t 0) = find_finished c xs t"
proof -
  obtain j where j: "length xs = Suc j" using assms(1) by (cases xs) auto
  have "run (length xs) (finding c xs t 0) = step (run j (finding c xs t 0))"
    unfolding j by (simp add: run_step)
  also have "\<dots> = step (finding c xs t j)" by (simp add: find_run j)
  also have "\<dots> = find_finished c xs t" using j[symmetric] by (rule find_last_step)
  finally have "run (length xs) (finding c xs t 0) = find_finished c xs t" .
  then show ?thesis
    using _ assms(2) by (rule run_settled) (simp add: find_finished_def)
qed

lemma ListHandler_find_init:
  "ListHandler_find xs c (init_world e) = (0, finding c xs 1 0)"
  by (simp add: ListHandler_find_def ListHandler_each_def Loop_until_def Loop_start_def
      setTimeout_def upd_loop_def new_Loop_def or_null_def init_world_def promise_then_def
      finding_def first_match_def found_after_def seen_after_def Let_def)

lemma first_match_Some:
  assumes "first_match c xs n = Some i"
  shows "i < n \<and> c (Some (xs ! i)) i \<and> (\<forall>i'<i. \<not> c (Some (xs ! i')) i')"
  using assms by (auto simp: first_match_def find_Some_iff)

lemma first_match_None:
  assumes "first_match c xs n = None"
  shows "\<forall>i<n. \<not> c (Some (xs ! i)) i"
  using assms by (auto simp: first_match_def find_None_iff)

lemma find_outcome:
  assumes "xs \<noteq> []" and "length xs \<le> k"
  shows "found (snd (env (run k (snd (ListHandler_find xs c (init_world e))))))
       = (case first_match c xs (length xs) of
            None \<Rightarrow> Rejected Null
          | Some i \<Rightarrow> Fulfilled (Some (xs ! i), i))"
    and "seen (snd (env (run k (snd (ListHandler_find xs c (init_world e))))))
       = seen_after xs (length xs)"
    and "calls_of 0 (run k (snd (ListHandler_find xs c (init_world e)))) = length xs"
    and "timers (run k (snd (ListHandler_find xs c (init_world e)))) = []"
  unfolding ListHandler_find_init snd_conv find_run_all[OF assms]
  by (simp_all add: find_finished_def calls_of_def)

lemma find_pending_ticks:
  assumes "j < length xs"
  shows "scheduled 0 (run j (snd (ListHandler_find xs c (init_world e))))"
    and "found (snd (env (run j (snd (ListHandler_find xs c (init_world e))))))
       = found_after c xs j"
  unfolding ListHandler_find_init snd_conv find_run[OF assms]
  by (simp_all add: finding_def scheduled_def)

section \<open>Properties of the Thread\<close>

text \<open>
  Claim C6 fails on the code of src/unnamed/part_000: \<^verbatim>\<open>exec\<close> posts
  \<^verbatim>\<open>data: this.params\<close>, a property no code sets, so the arguments 1, 2 never reach the
  worker (the adding handle runs without arguments and returns \<^verbatim>\<open>NaN\<close>), and the worker answers a
  throwing handle with the thrown value itself, with which the Future is rejected.
  src/AsyncUtils.js does what the claim says (the lemmas below).
\<close>

theorem exec_part_drops_params:
  "map inbox (workers (snd (Thread_exec_part (Some [Num 1, Num 2])
       (snd (Thread_start (new_Thread_part adding_fn))))))
     = [[\<lparr>msg_type = ''exec'', msg_data = NoData\<rparr>]]
   \<and> exec_future (deliver 0 (worker_run 0 (snd (Thread_exec_part (Some [Num 1, Num 2])
       (snd (Thread_start (new_Thread_part adding_fn)))))))
     = Some (Fulfilled (Result NaN))
   \<and> exec_future (deliver 0 (worker_run 0 (snd (Thread_exec_part None
       (snd (Thread_start (new_Thread_part throwing_fn)))))))
     = Some (Rejected (Data (Thrown \<lparr>message = ''boom'', stack = ''at handle''\<rparr>)))"
  by code_simp

lemma Thread_exec_posts_params:
  assumes "worker s = Some wk" and "wk < length (workers s)" and "alive (workers s ! wk)"
  shows "fst (Thread_exec params s) = None"
    and "inbox (workers (snd (Thread_exec params s)) ! wk)
       = inbox (workers s ! wk)
         @ [\<lparr>msg_type = ''exec'', msg_data = Params (case params of None \<Rightarrow> [] | Some p \<Rightarrow> p)\<rparr>]"
    and "exec_future (snd (Thread_exec params s)) = Some Pending"
  using assms
  by (simp_all add: Thread_exec_def new_exec_promise_def postMessage_def upd_worker_def
      exec_future_def Let_def)

lemma Template_throwing:
  assumes "msg_type m = ''exec''" and "h (apply_args (msg_data m)) = Inl ex"
  shows "Template h m = [\<lparr>msg_type = ''error'', msg_data = ErrorInfo (message ex) (stack ex)\<rparr>]"
  using assms by (simp add: Template_def)

lemma Thread_exec_throwing_handle:
  assumes "h (case params of None \<Rightarrow> [] | Some p \<Rightarrow> p) = Inl ex"
  shows "exec_future (deliver 0 (worker_run 0
           (snd (Thread_exec params (snd (Thread_start (new_Thread h)))))))
       = Some (Rejected (Data (ErrorInfo (message ex) (stack ex))))"
  using assms
  by (simp add: Thread_exec_def new_exec_promise_def postMessage_def upd_worker_def
      exec_future_def Let_def Thread_start_def new_Thread_def spawn_def worker_run_def
      deliver_def onmessage_def upd_promise_def Template_def apply_args_def reject_def)

text \<open>
  Claim C7 fails on the code when \<^verbatim>\<open>exec\<close> has never been called: \<^verbatim>\<open>this.deferred\<close> is
  still \<^verbatim>\<open>null\<close> and \<^verbatim>\<open>this.deferred.reject('Terminated')\<close> throws a TypeError, after the
  worker and the URL have been released and set to \<^verbatim>\<open>null\<close>. \<^verbatim>\<open>start\<close> relies on
  \<^verbatim>\<open>terminate\<close> whenever a worker exists, so a second \<^verbatim>\<open>start\<close> without an \<^verbatim>\<open>exec\<close>
  in between throws as well and leaves the Thread without a worker.
\<close>

theorem terminate_without_exec_throws:
  "fst (Thread_terminate (snd (Thread_start (new_Thread adding_fn)))) = Some TypeError
   \<and> worker (snd (Thread_terminate (snd (Thread_start (new_Thread adding_fn))))) = None
   \<and> url (snd (Thread_terminate (snd (Thread_start (new_Thread adding_fn))))) = None
   \<and> map alive (workers (snd (Thread_terminate (snd (Thread_start (new_Thread adding_fn))))))
       = [False]
   \<and> object_urls (snd (Thread_terminate (snd (Thread_start (new_Thread adding_fn))))) = []
   \<and> fst (Thread_start (snd (Thread_start (new_Thread adding_fn)))) = Some TypeError
   \<and> worker (snd (Thread_start (snd (Thread_start (new_Thread adding_fn))))) = None"
  by code_simp

text \<open>With an \<^verbatim>\<open>exec\<close> behind it, \<^verbatim>\<open>terminate\<close> does what the claim says: a pending
  Future is rejected with \<^verbatim>\<open>"Terminated"\<close>, a settled one is left as it is.\<close>

lemma Thread_terminate_after_exec:
  assumes "worker s = Some wk" and "wk < length (workers s)"
    and "deferred s = Some d" and "d < length (promises s)"
  shows "fst (Thread_terminate s) = None"
    and "worker (snd (Thread_terminate s)) = None"
    and "url (snd (Thread_terminate s)) = None"
    and "\<not> alive (workers (snd (Thread_terminate s)) ! wk)"
    and "\<forall>u. url s = Some u \<longrightarrow> u \<notin> set (object_urls (snd (Thread_terminate s)))"
    and "promises (snd (Thread_terminate s)) ! d = reject (Str ''Terminated'') (promises s ! d)"
  using assms
  by (auto simp: Thread_terminate_def upd_worker_def revokeObjectURL_def upd_promise_def Let_def
      split: option.splits)

section \<open>Properties of the conditional branch\<close>

lemmas if_defs = If_then_else_def If_cond_def new_promise_def new_ForkPromiseProxy_def subscribe_def
  proxy_then_def proxy_else_def upd_proxy_def upd_prom_def init_ihost_def istep_def run_timer_def
  run_job_def run_reaction_def resolve_with_def settle_def proxy_callback_def proxy_resolve_def
  call_branch_def state_of_def
  quiescent_def first_proxy_def returned_proxy_def host_of_def next_of_def wrapped_by_def

lemma irun_idle: "quiescent h \<Longrightarrow> irun k h = h"
  by (induction k) (simp_all add: istep_def quiescent_def)

lemma irun_add: "irun (j + k) h = irun k (irun j h)"
  by (induction j arbitrary: h) simp_all

lemma irun_settled:
  assumes "quiescent (irun n h)" and "n \<le> k"
  shows "irun k h = irun n h"
proof -
  from assms(2) obtain d where "k = n + d" by (auto simp: le_iff_add)
  then show ?thesis using assms(1) by (simp add: irun_add irun_idle)
qed


lemma non_boolean_3:
  assumes v: "condition () = v" and nt: "v \<noteq> JBool True" and nf: "v \<noteq> JBool False"
    and np: "\<forall>q. v \<noteq> JPromise q \<and> v \<noteq> JProxy q"
  shows "invoked (irun 3 (host_of (If_then_else condition a b init_ihost))) = []
       \<and> state_of (next_of (first_proxy (If_then_else condition a b init_ihost))
                     (host_of (If_then_else condition a b init_ihost)))
              (irun 3 (host_of (If_then_else condition a b init_ihost))) = Fulfilled JNull
       \<and> quiescent (irun 3 (host_of (If_then_else condition a b init_ihost)))"
  using assms
  by (cases v) (simp_all add: if_defs numeral_3_eq_3 Let_def)

lemma non_boolean_before:
  assumes v: "condition () = v" and nt: "v \<noteq> JBool True" and nf: "v \<noteq> JBool False"
    and np: "\<forall>q. v \<noteq> JPromise q \<and> v \<noteq> JProxy q" and k: "k < 3"
  shows "invoked (irun k (host_of (If_then_else condition a b init_ihost))) = []"
proof -
  from k have "k = 0 \<or> k = 1 \<or> k = 2" by auto
  then show ?thesis
    using v nt nf np
    by (elim disjE; cases v) (simp_all add: if_defs numeral_2_eq_2 Let_def)
qed

text \<open>
  Claim C10, as amended. Let the condition return a value that is neither \<^verbatim>\<open>true\<close> nor
  \<^verbatim>\<open>false\<close> nor a thenable (a promise or a proxy). Then in
  \<^verbatim>\<open>If(condition).then(a).else(b)\<close>, for any handles \<open>a\<close> and \<open>b\<close>, no handle is ever
  invoked, and once the timer and the reactions have run (three steps of the event loop)
  the continuation of the proxy is fulfilled with \<^verbatim>\<open>null\<close> and nothing is left to run.
\<close>

theorem If_non_boolean_condition:
  assumes v: "condition () = v" and nt: "v \<noteq> JBool True" and nf: "v \<noteq> JBool False"
    and np: "\<forall>q. v \<noteq> JPromise q \<and> v \<noteq> JProxy q"
  shows "(\<forall>k. invoked (irun k (host_of (If_then_else condition a b init_ihost))) = [])
       \<and> (\<forall>k\<ge>3. state_of (next_of (first_proxy (If_then_else condition a b init_ihost))
                              (host_of (If_then_else condition a b init_ihost)))
                     (irun k (host_of (If_then_else condition a b init_ihost))) = Fulfilled JNull
                 \<and> quiescent (irun k (host_of (If_then_else condition a b init_ihost))))"
proof -
  let ?h = "host_of (If_then_else condition a b init_ihost)"
  note 3 = non_boolean_3[where condition = condition and v = v and a = a and b = b, OF v nt nf np]
  have later: "irun k ?h = irun 3 ?h" if "3 \<le> k" for k
    using 3 that by (intro irun_settled) simp
  have "invoked (irun k ?h) = []" for k
  proof (cases "k < 3")
    case True
    then show ?thesis
      by (rule non_boolean_before[where condition = condition and v = v, OF v nt nf np])
  next
    case False
    then show ?thesis using later[of k] 3 by simp
  qed
  moreover have "state_of (next_of (first_proxy (If_then_else condition a b init_ihost)) ?h)
      (irun k ?h) = Fulfilled JNull \<and> quiescent (irun k ?h)" if "3 \<le> k" for k
    using later[OF that] 3 by simp
  ultimately show ?thesis by blast
qed

theorem If_non_boolean_condition_witness:
  "returns_one () = JNum 1
   \<and> invoked (irun 5 (host_of (If_then_else returns_one returns_A returns_B init_ihost))) = []
   \<and> state_of (next_of (first_proxy (If_then_else returns_one returns_A returns_B init_ihost))
         (host_of (If_then_else returns_one returns_A returns_B init_ihost)))
       (irun 5 (host_of (If_then_else returns_one returns_A returns_B init_ihost)))
     = Fulfilled JNull"
proof -
  have v: "returns_one () = JNum 1" by (simp add: returns_one_def)
  have n: "JNum 1 \<noteq> JBool True" "JNum 1 \<noteq> JBool False"
    "\<forall>q. JNum 1 \<noteq> JPromise q \<and> JNum 1 \<noteq> JProxy q"
    by simp_all
  note t = If_non_boolean_condition[where condition = returns_one and v = "JNum 1"
      and a = returns_A and b = returns_B, OF v n]
  from t have "invoked (irun 5 (host_of (If_then_else returns_one returns_A returns_B init_ihost))) = []"
    by blast
  moreover from t have "state_of (next_of (first_proxy (If_then_else returns_one returns_A returns_B init_ihost))
         (host_of (If_then_else returns_one returns_A returns_B init_ihost)))
       (irun 5 (host_of (If_then_else returns_one returns_A returns_B init_ihost)))
     = Fulfilled JNull"
    by simp
  ultimately show ?thesis using v by blast
qed

text \<open>
  The claim as stated fails for a condition that returns a promise: the promise is neither
  \<^verbatim>\<open>true\<close> nor \<^verbatim>\<open>false\<close>, but \<^verbatim>\<open>resolve(condition())\<close> adopts it, and when it is fulfilled
  with \<^verbatim>\<open>true\<close> the then-handle is invoked and the continuation is fulfilled with its result.
\<close>

theorem If_promise_condition_counterexample:
  "returns_true_promise () \<noteq> JBool True
   \<and> returns_true_promise () \<noteq> JBool False
   \<and> invoked (irun 4 (host_of (If_then_else returns_true_promise returns_A returns_B
        host_with_true_promise)))
     = [(0, ''then'')]
   \<and> state_of (next_of (first_proxy (If_then_else returns_true_promise returns_A returns_B
          host_with_true_promise))
         (host_of (If_then_else returns_true_promise returns_A returns_B host_with_true_promise)))
       (irun 4 (host_of (If_then_else returns_true_promise returns_A returns_B
          host_with_true_promise)))
     = Fulfilled (JStr ''A'')"
  by code_simp

text \<open>
  A proxy is a thenable as well: \<^verbatim>\<open>resolve(condition())\<close> calls its method \<^verbatim>\<open>then\<close> and
  waits for the \<^verbatim>\<open>resolve\<close> function it has handed over to be called. With
  \<^verbatim>\<open>var q = If(() => false)\<close> and the condition \<^verbatim>\<open>() => q\<close> that never happens: no handle
  of the new proxy is invoked, but its continuation stays pending.
\<close>

lemma If_proxy_condition_stays_pending:
  "quiescent (irun 6 (host_of (If_then_else returns_proxy returns_A returns_B host_with_proxy)))
   \<and> first_proxy (If_then_else returns_proxy returns_A returns_B host_with_proxy) = 1
   \<and> invoked (irun 6 (host_of (If_then_else returns_proxy returns_A returns_B host_with_proxy)))
     = [(0, ''else'')]
   \<and> state_of (next_of (first_proxy (If_then_else returns_proxy returns_A returns_B
          host_with_proxy))
         (host_of (If_then_else returns_proxy returns_A returns_B host_with_proxy)))
       (irun 6 (host_of (If_then_else returns_proxy returns_A returns_B host_with_proxy)))
     = Pending"
  by code_simp

end
